theory Spec2Isabelle
  imports Main
begin

section \<open>The execution status engine (src/src/execution/StatusManager.ts)\<close>

subsection \<open>Data model\<close>

text \<open>
  The types \<open>Status\<close>, \<open>ProcessType\<close>, \<open>Process\<close>, \<open>Execution\<close> and \<open>LiFiStep\<close> are
  imported by the source from the package @lifi/types. They are unions of string
  literals and plain objects; the model has the members the sources name. The engine
  compares statuses and types by equality only.
\<close>

datatype Status =
  STARTED | ACTION_REQUIRED | PERMIT_REQUIRED | PENDING | FAILED | DONE | CANCELLED

datatype ProcessType =
  TRANSACTION | CROSS_CHAIN | SWAP | RECEIVING_CHAIN | TOKEN_ALLOWANCE | SWITCH_CHAIN

datatype ProcessError = ProcessError (code: int) (errorMessage: string)

text \<open>
  A process. The fields \<open>type\<close> and \<open>status\<close> of the source are \<open>ptype\<close> and \<open>pstatus\<close>
  here (\<open>status\<close> is also a field of the execution). An optional field that is absent
  or undefined is \<open>None\<close>. Times are the milliseconds of \<open>Date.now()\<close>.
\<close>

record Process =
  ptype :: ProcessType
  pstatus :: Status
  startedAt :: nat
  message :: string
  doneAt :: "nat option"
  failedAt :: "nat option"
  txHash :: "string option"
  txLink :: "string option"
  error :: "ProcessError option"
  substatus :: "string option"
  substatusMessage :: "string option"
  multisigTxHash :: "string option"

record Execution =
  status :: Status
  process :: "Process list"

text \<open>
  The fields of a receipt, which \<open>updateExecution\<close> can merge into an execution, are left
  out: no operation below reads or writes them.
\<close>

text \<open>A step: its identifier (\<open>id\<close> in the source) and its optional execution.\<close>

record LiFiStep =
  step_id :: string
  execution :: "Execution option"

text \<open>
  \<open>OptionalParameters\<close> is \<open>Partial<Pick<Process, ...>>\<close>: for each of the eight keys,
  \<open>None\<close> means that the key is not among \<open>Object.entries(params)\<close>, and \<open>Some v\<close> that
  the entry \<open>[key, v]\<close> is (where \<open>v\<close> itself may be undefined, that is \<open>None\<close>).
\<close>

record OptionalParameters =
  set_doneAt :: "nat option option"
  set_failedAt :: "nat option option"
  set_txHash :: "string option option"
  set_txLink :: "string option option"
  set_error :: "ProcessError option option"
  set_substatus :: "string option option"
  set_substatusMessage :: "string option option"
  set_multisigTxHash :: "string option option"

text \<open>
  The two hooks of the engine receive the whole route; the model records each call.
\<close>

datatype HookCall =
  UpdateRouteHook "LiFiStep list"
| InternalUpdateRouteCallback "LiFiStep list"

text \<open>
  The state of a \<open>StatusManager\<close>: the steps of its route (\<open>this.route.steps\<close>), the flag
  \<open>shouldUpdate\<close>, and the calls made to \<open>settings.updateRouteHook\<close> and to
  \<open>internalUpdateRouteCallback\<close> so far, oldest first. The route holds the steps as
  they were last written by \<open>updateStepInRoute\<close>.
\<close>

record StatusManager =
  route :: "LiFiStep list"
  shouldUpdate :: bool
  hookCalls :: "HookCall list"

text \<open>The errors the operations below throw, named after their messages.\<close>

datatype Error =
  ExecutionNotInitialized       \<comment> \<open>Execution hasn't been initialized.\<close>
| CantUpdateEmptyStepExecution  \<comment> \<open>Can't update an empty step execution.\<close>
| CantFindProcess               \<comment> \<open>Can't find a process for the given type.\<close>
| CouldntFindStep               \<comment> \<open>Couldn't find a step to update.\<close>
| CantUpdateEmptyExecution      \<comment> \<open>Can't update empty execution.\<close>

text \<open>
  An operation of the engine mutates the step it is given and may then throw. Its model
  returns the engine, the step as the call leaves it, and the thrown error (\<open>Inl\<close>) or
  the returned value (\<open>Inr\<close>).
\<close>

type_synonym 'a outcome = "StatusManager \<times> LiFiStep \<times> (Error + 'a)"

subsection \<open>Array primitives\<close>

text \<open>\<open>Array.prototype.findIndex\<close>: the first index whose element satisfies the test, or -1.\<close>

fun findIndex :: "('a \<Rightarrow> bool) \<Rightarrow> 'a list \<Rightarrow> int" where
  "findIndex P [] = - 1"
| "findIndex P (x # xs) =
     (if P x then 0
      else (let i = findIndex P xs in if i < 0 then - 1 else i + 1))"

text \<open>
  \<open>Array.prototype.splice(start, deleteCount)\<close> with no inserted items: a negative start
  counts from the end of the array (and is clamped at 0), a start beyond the end is the
  length.
\<close>

definition splice_array :: "int \<Rightarrow> nat \<Rightarrow> 'a list \<Rightarrow> 'a list" where
  "splice_array start deleteCount xs =
     (let len = int (length xs);
          actualStart = (if start < 0 then max (len + start) 0 else min start len)
      in take (nat actualStart) xs @ drop (nat actualStart + deleteCount) xs)"

text \<open>
  \<open>Array.prototype.find\<close> is \<^const>\<open>List.find\<close>. The object it returns is an element of
  the array, so an assignment to one of its fields changes the array at the position
  of the first match: \<open>updateFirst\<close>.
\<close>

fun updateFirst :: "('a \<Rightarrow> bool) \<Rightarrow> ('a \<Rightarrow> 'a) \<Rightarrow> 'a list \<Rightarrow> 'a list" where
  "updateFirst P f [] = []"
| "updateFirst P f (x # xs) = (if P x then f x # xs else x # updateFirst P f xs)"

subsection \<open>Propagation\<close>

text \<open>
  \<open>Object.assign(target, step)\<close> copies the properties that \<open>step\<close> has; an absent
  execution leaves the target's.
\<close>

definition Object_assign :: "LiFiStep \<Rightarrow> LiFiStep \<Rightarrow> LiFiStep" where
  "Object_assign target step =
     \<lparr> step_id = step_id step,
       execution = (case execution step of None \<Rightarrow> execution target | Some e \<Rightarrow> Some e) \<rparr>"

definition updateStepInRoute :: "StatusManager \<Rightarrow> LiFiStep \<Rightarrow> StatusManager \<times> (Error + LiFiStep)" where
  "updateStepInRoute m step =
     (if \<not> shouldUpdate m then (m, Inr step)
      else
        (let stepIndex = findIndex (\<lambda>routeStep. step_id routeStep = step_id step) (route m)
         in if stepIndex = - 1 then (m, Inl CouldntFindStep)
            else
              (let steps' = (route m)[nat stepIndex := Object_assign (route m ! nat stepIndex) step]
               in (m\<lparr> route := steps',
                      hookCalls := hookCalls m @ [UpdateRouteHook steps', InternalUpdateRouteCallback steps'] \<rparr>,
                   Inr (steps' ! nat stepIndex)))))"

text \<open>
  Every mutating operation ends with \<open>this.updateStepInRoute(step)\<close> followed by
  \<open>return value\<close>: the step keeps its mutation when the propagation throws.
\<close>

definition propagateAndReturn :: "StatusManager \<Rightarrow> LiFiStep \<Rightarrow> 'a \<Rightarrow> 'a outcome" where
  "propagateAndReturn m step v =
     (case updateStepInRoute m step of
        (m', Inl e) \<Rightarrow> (m', step, Inl e)
      | (m', Inr _) \<Rightarrow> (m', step, Inr v))"

definition allowUpdates :: "StatusManager \<Rightarrow> bool \<Rightarrow> StatusManager" where
  "allowUpdates m v = m\<lparr> shouldUpdate := v \<rparr>"

subsection \<open>initExecutionObject\<close>

text \<open>
  Modelled from the spec: \<open>emptyExecution\<close> is a constant of @lifi/types, which is not
  among the sources; the spec calls it an empty Execution. Its status is overwritten
  with \<open>PENDING\<close> before anything reads it.
\<close>

definition emptyExecution :: Execution where
  "emptyExecution = \<lparr> status = PENDING, process = [] \<rparr>"

text \<open>
  \<open>currentExecution\<close> and \<open>step.execution\<close> are one object after the first branch, so the
  second test reads the status the first branch wrote.
\<close>

definition initExecutionObject :: "StatusManager \<Rightarrow> LiFiStep \<Rightarrow> Execution outcome" where
  "initExecutionObject m step =
     (let currentExecution = (case execution step of Some e \<Rightarrow> e | None \<Rightarrow> emptyExecution)
      in case (if execution step = None
               then (let ce = currentExecution\<lparr> status := PENDING \<rparr>
                     in propagateAndReturn m (step\<lparr> execution := Some ce \<rparr>) ce)
               else (m, step, Inr currentExecution)) of
           (m1, step1, Inl e) \<Rightarrow> (m1, step1, Inl e)
         | (m1, step1, Inr ce1) \<Rightarrow>
             if status ce1 = FAILED
             then (let ce2 = ce1\<lparr> status := PENDING \<rparr>
                   in propagateAndReturn m1 (step1\<lparr> execution := Some ce2 \<rparr>) ce2)
             else (m1, step1, Inr ce1))"

subsection \<open>findOrCreateProcess\<close>

text \<open>
  \<open>getProcessMessage\<close> (of ./utils.js, not among the sources) is the parameter \<open>gm\<close>,
  and the reading of the clock \<open>Date.now()\<close> is the parameter \<open>now\<close>.
\<close>

definition findOrCreateProcess ::
  "(ProcessType \<Rightarrow> Status \<Rightarrow> string) \<Rightarrow> nat \<Rightarrow> StatusManager \<Rightarrow> LiFiStep \<Rightarrow> ProcessType \<Rightarrow>
   Status option \<Rightarrow> Process outcome" where
  "findOrCreateProcess gm now m step type status' =
     (case execution step of
        None \<Rightarrow> (m, step, Inl ExecutionNotInitialized)
      | Some ex \<Rightarrow>
          (case find (\<lambda>p. ptype p = type) (process ex) of
             Some p \<Rightarrow>
               (case status' of
                  Some s \<Rightarrow>
                    if pstatus p \<noteq> s
                    then propagateAndReturn m
                           (step\<lparr> execution := Some (ex\<lparr> process :=
                              updateFirst (\<lambda>p. ptype p = type) (\<lambda>p. p\<lparr> pstatus := s \<rparr>) (process ex) \<rparr>) \<rparr>)
                           (p\<lparr> pstatus := s \<rparr>)
                    else (m, step, Inr p)
                | None \<Rightarrow> (m, step, Inr p))
           | None \<Rightarrow>
               (let s = (case status' of Some s \<Rightarrow> s | None \<Rightarrow> STARTED);
                    newProcess = \<lparr> ptype = type, pstatus = s, startedAt = now, message = gm type s,
                                   doneAt = None, failedAt = None, txHash = None, txLink = None,
                                   error = None, substatus = None, substatusMessage = None,
                                   multisigTxHash = None \<rparr>
                in propagateAndReturn m
                     (step\<lparr> execution := Some (ex\<lparr> process := process ex @ [newProcess] \<rparr>) \<rparr>)
                     newProcess)))"

subsection \<open>updateProcess\<close>

text \<open>The loop over \<open>Object.entries(params)\<close>: each entry writes its own field.\<close>

definition assignParams :: "OptionalParameters \<Rightarrow> Process \<Rightarrow> Process" where
  "assignParams params p =
     p\<lparr> doneAt := (case set_doneAt params of None \<Rightarrow> doneAt p | Some v \<Rightarrow> v),
        failedAt := (case set_failedAt params of None \<Rightarrow> failedAt p | Some v \<Rightarrow> v),
        txHash := (case set_txHash params of None \<Rightarrow> txHash p | Some v \<Rightarrow> v),
        txLink := (case set_txLink params of None \<Rightarrow> txLink p | Some v \<Rightarrow> v),
        error := (case set_error params of None \<Rightarrow> error p | Some v \<Rightarrow> v),
        substatus := (case set_substatus params of None \<Rightarrow> substatus p | Some v \<Rightarrow> v),
        substatusMessage :=
          (case set_substatusMessage params of None \<Rightarrow> substatusMessage p | Some v \<Rightarrow> v),
        multisigTxHash :=
          (case set_multisigTxHash params of None \<Rightarrow> multisigTxHash p | Some v \<Rightarrow> v) \<rparr>"

text \<open>
  The \<open>switch\<close> on the new status: what it writes to the current process and to the
  status of the step's execution.
\<close>

fun statusSwitch :: "nat \<Rightarrow> Status \<Rightarrow> Process \<times> Status \<Rightarrow> Process \<times> Status" where
  "statusSwitch now CANCELLED (p, es) = (p\<lparr> doneAt := Some now \<rparr>, es)"
| "statusSwitch now FAILED (p, es) = (p\<lparr> doneAt := Some now \<rparr>, FAILED)"
| "statusSwitch now DONE (p, es) = (p\<lparr> doneAt := Some now \<rparr>, es)"
| "statusSwitch now PENDING (p, es) = (p, PENDING)"
| "statusSwitch now ACTION_REQUIRED (p, es) = (p, ACTION_REQUIRED)"
| "statusSwitch now _ (p, es) = (p, es)"

text \<open>The reordering at the end of \<open>updateProcess\<close>: two filters, concatenated.\<close>

definition sortProcesses :: "Process list \<Rightarrow> Process list" where
  "sortProcesses ps =
     filter (\<lambda>process. pstatus process = DONE) ps @ filter (\<lambda>process. pstatus process \<noteq> DONE) ps"

definition updateProcess ::
  "(ProcessType \<Rightarrow> Status \<Rightarrow> string) \<Rightarrow> nat \<Rightarrow> StatusManager \<Rightarrow> LiFiStep \<Rightarrow> ProcessType \<Rightarrow>
   Status \<Rightarrow> OptionalParameters option \<Rightarrow> Process outcome" where
  "updateProcess gm now m step type status' params =
     (case execution step of
        None \<Rightarrow> (m, step, Inl CantUpdateEmptyStepExecution)
      | Some ex \<Rightarrow>
          (case find (\<lambda>p. ptype p = type) (process ex) of
             None \<Rightarrow> (m, step, Inl CantFindProcess)
           | Some currentProcess \<Rightarrow>
               (let (p1, es) = statusSwitch now status' (currentProcess, status ex);
                    p2 = p1\<lparr> pstatus := status', message := gm type status' \<rparr>;
                    p3 = (case params of None \<Rightarrow> p2 | Some ps \<Rightarrow> assignParams ps p2);
                    written = updateFirst (\<lambda>p. ptype p = type) (\<lambda>_. p3) (process ex)
                in propagateAndReturn m
                     (step\<lparr> execution := Some \<lparr> status = es, process = sortProcesses written \<rparr> \<rparr>)
                     p3)))"

subsection \<open>removeProcess\<close>

definition removeProcess :: "StatusManager \<Rightarrow> LiFiStep \<Rightarrow> ProcessType \<Rightarrow> unit outcome" where
  "removeProcess m step type =
     (case execution step of
        None \<Rightarrow> (m, step, Inl ExecutionNotInitialized)
      | Some ex \<Rightarrow>
          (let index = findIndex (\<lambda>p. ptype p = type) (process ex)
           in propagateAndReturn m
                (step\<lparr> execution := Some (ex\<lparr> process := splice_array index 1 (process ex) \<rparr>) \<rparr>)
                ()))"

subsection \<open>updateExecution\<close>

text \<open>
  \<open>updateExecution\<close> as the executor calls it, with a status and no receipt: the branch that
  merges a receipt into the execution is left out.
\<close>

definition updateExecution :: "StatusManager \<Rightarrow> LiFiStep \<Rightarrow> Status \<Rightarrow> LiFiStep outcome" where
  "updateExecution m step status' =
     (case execution step of
        None \<Rightarrow> (m, step, Inl CantUpdateEmptyExecution)
      | Some ex \<Rightarrow>
          propagateAndReturn m (step\<lparr> execution := Some (ex\<lparr> status := status' \<rparr>) \<rparr>)
            (step\<lparr> execution := Some (ex\<lparr> status := status' \<rparr>) \<rparr>))"

subsection \<open>Outcomes and sequences of calls\<close>

text \<open>The three parts of an outcome.\<close>

definition managerAfter :: "'a outcome \<Rightarrow> StatusManager" where
  "managerAfter oc = fst oc"

definition stepAfter :: "'a outcome \<Rightarrow> LiFiStep" where
  "stepAfter oc = fst (snd oc)"

definition resultOf :: "'a outcome \<Rightarrow> Error + 'a" where
  "resultOf oc = snd (snd oc)"

text \<open>
  A caller's sequence of \<open>findOrCreateProcess\<close> and \<open>updateProcess\<close> calls on one step, each
  with the clock it reads and its arguments. A call that throws leaves the engine and
  the step as they are at the throw, and the caller may go on.
\<close>

datatype EngineCall =
  FindOrCreateProcess nat ProcessType "Status option"
| UpdateProcess nat ProcessType Status "OptionalParameters option"

fun engineCall ::
  "(ProcessType \<Rightarrow> Status \<Rightarrow> string) \<Rightarrow> EngineCall \<Rightarrow> StatusManager \<times> LiFiStep \<Rightarrow>
   StatusManager \<times> LiFiStep" where
  "engineCall gm (FindOrCreateProcess now type s) (m, step) =
     (managerAfter (findOrCreateProcess gm now m step type s),
      stepAfter (findOrCreateProcess gm now m step type s))"
| "engineCall gm (UpdateProcess now type s params) (m, step) =
     (managerAfter (updateProcess gm now m step type s params),
      stepAfter (updateProcess gm now m step type s params))"

definition engineCalls ::
  "(ProcessType \<Rightarrow> Status \<Rightarrow> string) \<Rightarrow> EngineCall list \<Rightarrow> StatusManager \<times> LiFiStep \<Rightarrow>
   StatusManager \<times> LiFiStep" where
  "engineCalls gm cs st = fold (engineCall gm) cs st"


section \<open>The step executors\<close>

subsection \<open>BaseStepExecutor.setInteraction (src/unnamed/part_000)\<close>

text \<open>
  \<open>InteractionSettings\<close>: each flag is optional. \<open>None\<close> is a flag the object does not
  have. The fields carry the prefix \<open>opt_\<close>, since \<open>allowUpdates\<close> and \<open>allowExecution\<close>
  also name a method of the engine and a field of the executor.
\<close>

record InteractionSettings =
  opt_allowInteraction :: "bool option"
  opt_allowUpdates :: "bool option"
  opt_allowExecution :: "bool option"

definition defaultInteractionSettings :: InteractionSettings where
  "defaultInteractionSettings =
     \<lparr> opt_allowInteraction = Some True, opt_allowUpdates = Some True, opt_allowExecution = Some True \<rparr>"

text \<open>The executor: its status manager and its two flags (the execution settings play no part).\<close>

record BaseStepExecutor =
  statusManager :: StatusManager
  allowUserInteraction :: bool
  allowExecution :: bool

text \<open>
  The object spread \<open>{ ...a, ...b }\<close>: the properties of \<open>b\<close> override those of \<open>a\<close>, and
  an undefined \<open>b\<close> adds nothing.
\<close>

definition spread :: "InteractionSettings \<Rightarrow> InteractionSettings option \<Rightarrow> InteractionSettings" where
  "spread a b =
     (case b of
        None \<Rightarrow> a
      | Some s \<Rightarrow>
          \<lparr> opt_allowInteraction =
              (case opt_allowInteraction s of None \<Rightarrow> opt_allowInteraction a | Some v \<Rightarrow> Some v),
            opt_allowUpdates =
              (case opt_allowUpdates s of None \<Rightarrow> opt_allowUpdates a | Some v \<Rightarrow> Some v),
            opt_allowExecution =
              (case opt_allowExecution s of None \<Rightarrow> opt_allowExecution a | Some v \<Rightarrow> Some v) \<rparr>)"

text \<open>A flag that is read where the object has none is undefined, which every test takes for false.\<close>

definition flag :: "bool option \<Rightarrow> bool" where
  "flag v = (case v of Some b \<Rightarrow> b | None \<Rightarrow> False)"

definition setInteraction :: "BaseStepExecutor \<Rightarrow> InteractionSettings option \<Rightarrow> BaseStepExecutor" where
  "setInteraction this settings =
     (let interactionSettings = spread defaultInteractionSettings settings
      in this\<lparr> allowUserInteraction := flag (opt_allowInteraction interactionSettings),
               statusManager := allowUpdates (statusManager this) (flag (opt_allowUpdates interactionSettings)),
               allowExecution := flag (opt_allowExecution interactionSettings) \<rparr>)"

subsection \<open>EVMStepExecutor.executeStep (src/src/core/EVM/EVMStepExecutor.ts)\<close>

text \<open>
  Modelled from the spec: the status manager that EVMStepExecutor.ts is written against
  is not among the sources. Its \<open>findOrCreateProcess\<close> takes one object, with the step, the
  type, a chain identifier and an optional status, where the one of
  src/execution/StatusManager.ts takes the step, the type and the status. The spec (4.1)
  gives its contract: lookup by type; if absent, a new process with the status given or
  \<open>STARTED\<close>, the clock and the message of the type and status; an explicit status that
  differs is written in place; propagation only on a change. This is what
  \<open>findOrCreateProcess\<close> above does, and the process of the spec has no chain identifier,
  which is dropped. The other operations that the executor calls (\<open>initExecutionObject\<close>,
  \<open>updateProcess\<close>, \<open>updateExecution\<close>) it calls with the arguments of
  src/execution/StatusManager.ts, whose definitions, which follow the same contract,
  stand for them.
\<close>

definition findOrCreateProcess_object ::
  "(ProcessType \<Rightarrow> Status \<Rightarrow> string) \<Rightarrow> nat \<Rightarrow> StatusManager \<Rightarrow> LiFiStep \<Rightarrow> ProcessType \<Rightarrow>
   int option \<Rightarrow> Status option \<Rightarrow> Process outcome" where
  "findOrCreateProcess_object gm now m step type chainId status' =
     findOrCreateProcess gm now m step type status'"

text \<open>
  The step as the executor has it, \<open>LiFiStepExtended\<close>: the step of the status engine (its
  identifier and its execution) with the fields that \<open>executeStep\<close> reads or writes. The
  numeric strings of the transaction request are the integers that \<open>BigInt\<close> reads from
  them, \<open>None\<close> for a value that is absent or empty. The permit, its data and the witness
  of a relayed step only travel to the collaborators.
\<close>

record Action =
  fromAddress :: "string option"
  fromChainId :: int
  toChainId :: int
  fromToken_address :: string
  fromToken_chainId :: int
  fromAmount :: int

record StepRequest =
  request_to :: "string option"
  request_from :: "string option"
  request_data :: "string option"
  request_value :: "int option"
  request_gasLimit :: "int option"
  request_maxPriorityFeePerGas :: "int option"

record LiFiStepExtended =
  engineStep :: LiFiStep
  action :: Action
  transactionRequest :: "StepRequest option"
  step_permitData :: "string option"
  step_permit :: "string option"
  step_witness :: "string option"

text \<open>The wallet client (its account, if it has one) and the executor that holds it.\<close>

record Account =
  address :: string
  local :: bool

record Client =
  account :: "Account option"

record EVMStepExecutor = BaseStepExecutor +
  client :: Client

text \<open>What the executor reads of the configuration of a chain and of a native permit.\<close>

record Chain =
  chain_id :: int
  permit2 :: "string option"
  permit2Proxy :: "string option"

record NativePermit =
  supported :: bool

text \<open>
  The local variable \<open>transactionRequest\<close>, a call of an atomic batch, and the signature that
  \<open>signPermitMessage\<close> returns. The fields \<open>to\<close>, \<open>from\<close>, \<open>data\<close>, \<open>value\<close> and \<open>gas\<close> carry
  a prefix.
\<close>

record TransactionParameters =
  tx_to :: "string option"
  tx_from :: "string option"
  tx_data :: "string option"
  tx_value :: "int option"
  tx_gas :: "int option"
  tx_gasPrice :: "int option"
  tx_maxFeePerGas :: "int option"
  tx_maxPriorityFeePerGas :: "int option"

record Call =
  call_data :: "string option"
  call_to :: "string option"
  call_value :: "int option"
  call_chainId :: "int option"

record PermitSignature =
  sig_data :: string
  signature :: string

text \<open>
  The arguments \<open>executeStep\<close> builds for the calls by which it signs and submits: for
  \<open>sendCalls\<close>, \<open>signPermitMessage\<close>, \<open>estimateGas\<close>, \<open>relayTransaction\<close> and \<open>sendTransaction\<close>.
\<close>

record SendCallsParameters =
  sc_account :: "Account option"
  sc_calls :: "Call list"

record SignPermitParameters =
  sp_transactionRequest :: TransactionParameters
  sp_chain :: Chain
  sp_tokenAddress :: string
  sp_amount :: int
  sp_nativePermit :: NativePermit
  sp_permitData :: "string option"
  sp_useWitness :: bool

record EstimateGasParameters =
  eg_account :: "Account option"
  eg_to :: "string option"
  eg_data :: "string option"
  eg_value :: "int option"

record RelayParameters =
  rl_tokenOwner :: string
  rl_chainId :: int
  rl_permit :: "string option"
  rl_witness :: "string option"
  rl_signedPermitData :: string
  rl_callData :: "string option"

record SendTransactionParameters =
  st_to :: "string option"
  st_account :: "Account option"
  st_data :: "string option"
  st_value :: "int option"
  st_gas :: "int option"
  st_gasPrice :: "int option"
  st_maxFeePerGas :: "int option"
  st_maxPriorityFeePerGas :: "int option"

text \<open>
  These calls, in the order \<open>executeStep\<close> makes them: what it asks the wallet and the relayer
  to sign and to submit.
\<close>

datatype Request =
  SendCalls SendCallsParameters
| SignPermitMessage SignPermitParameters
| EstimateGas EstimateGasParameters
| RelayTransaction RelayParameters
| SendTransaction SendTransactionParameters

text \<open>What \<open>executeStep\<close> or one of its callees throws.\<close>

datatype Exception =
  EngineError Error              \<comment> \<open>thrown by the status manager\<close>
| TransactionError int string    \<comment> \<open>\<open>new TransactionError(code, message)\<close>\<close>
| TypeError                      \<comment> \<open>a property read on undefined\<close>
| CollaboratorError string       \<comment> \<open>thrown by a collaborator\<close>
| SDKError int string            \<comment> \<open>what \<open>parseEVMErrors\<close> returns: its code and the message of its cause\<close>

text \<open>
  The collaborators of \<open>executeStep\<close> (viem, the configuration, the API services and the
  helpers of the executor, none of them among the sources) are parameters: what each
  answers, an error (\<open>Inl\<close>, the exception it throws) or a value. \<open>switchChain\<close>,
  \<open>checkAllowance\<close> and \<open>stepComparison\<close> are given the status manager and the step, and
  answer with both as they leave them. \<open>Date_now\<close> is the clock as read on the source
  line given, \<open>getProcessMessage\<close> the message of a type and a status, and the two codes
  are those of \<open>LiFiErrorCode\<close>. The executor reads its hooks from \<open>this.executionOptions\<close>,
  which the executor of part_000 does not declare: the hook of \<open>switchChain\<close> is part of
  that collaborator, and an absent \<open>updateTransactionRequestHook\<close> is \<open>None\<close>.
\<close>

record Collaborators =
  getProcessMessage :: "ProcessType \<Rightarrow> Status \<Rightarrow> string"
  Date_now :: "nat \<Rightarrow> nat"
  WalletChangedDuringExecution :: int
  TransactionUnprepared :: int
  switchChain ::
    "Client \<Rightarrow> StatusManager \<Rightarrow> LiFiStepExtended \<Rightarrow> bool \<Rightarrow>
     StatusManager \<times> LiFiStepExtended \<times> (string + Client option)"
  getAddresses :: "Client \<Rightarrow> string + string list"
  getChainById :: "int \<Rightarrow> string + Chain"
  getCapabilities :: "Client \<Rightarrow> string + (int \<Rightarrow> bool)"
  isEVMPermitStep :: "LiFiStepExtended \<Rightarrow> bool"
  getNativePermit :: "Client \<Rightarrow> Chain \<Rightarrow> string \<Rightarrow> string + NativePermit"
  isZeroAddress :: "string \<Rightarrow> bool"
  checkAllowance ::
    "Client \<Rightarrow> Chain \<Rightarrow> StatusManager \<Rightarrow> LiFiStepExtended \<Rightarrow> bool \<Rightarrow> bool \<Rightarrow> bool \<Rightarrow>
     StatusManager \<times> LiFiStepExtended \<times> (string + string option)"
  checkBalance :: "string \<Rightarrow> LiFiStepExtended \<Rightarrow> string + unit"
  getRelayerQuote :: "LiFiStepExtended \<Rightarrow> string + LiFiStepExtended"
  getStepTransaction :: "LiFiStepExtended \<Rightarrow> string + LiFiStepExtended"
  stepComparison ::
    "StatusManager \<Rightarrow> LiFiStepExtended \<Rightarrow> LiFiStepExtended \<Rightarrow> bool \<Rightarrow>
     StatusManager \<times> LiFiStepExtended \<times> (string + LiFiStepExtended)"
  getMaxPriorityFeePerGas :: "Client \<Rightarrow> string + int option"
  updateTransactionRequestHook :: "(TransactionParameters \<Rightarrow> string + TransactionParameters) option"
  parseEVMErrors :: "Exception \<Rightarrow> LiFiStepExtended \<Rightarrow> Process option \<Rightarrow> int \<times> string"
  sendCalls :: "SendCallsParameters \<Rightarrow> string + string"
  signPermitMessage :: "SignPermitParameters \<Rightarrow> string + PermitSignature"
  estimateGas :: "EstimateGasParameters \<Rightarrow> string + int"
  relayTransaction :: "RelayParameters \<Rightarrow> string + string"
  sendTransaction :: "SendTransactionParameters \<Rightarrow> string + string"

text \<open>
  What an invocation has changed: the executor (with its status manager and its client),
  the step, and the requests made so far.
\<close>

type_synonym World = "EVMStepExecutor \<times> LiFiStepExtended \<times> Request list"

text \<open>
  How the modelled part of \<open>executeStep\<close> ends: \<open>return step\<close>; an exception that leaves
  \<open>executeStep\<close>; a transaction of the given hash, submitted now or before, for which the
  source goes on to record the hash and to await the receipt (from line 429 on); or a
  swap or bridge process that is \<open>DONE\<close> already, with which the source goes on to the
  destination chain (from line 511 on). The model stops at the last two.
\<close>

datatype Ending =
  Return
| Throw Exception
| AwaitTransaction string Process
| TransactionDone Process

text \<open>
  A part of \<open>executeStep\<close> leaves the world it has changed, and either ends the invocation
  (\<open>Inl\<close>) or hands a value to what follows (\<open>Inr\<close>).
\<close>

type_synonym 'a partial = "World \<times> (Ending + 'a)"

definition thenDo :: "'a partial \<Rightarrow> (World \<Rightarrow> 'a \<Rightarrow> 'b partial) \<Rightarrow> 'b partial" where
  "thenDo r f = (case r of (w, Inl e) \<Rightarrow> (w, Inl e) | (w, Inr v) \<Rightarrow> f w v)"

definition thenEnd :: "'a partial \<Rightarrow> (World \<Rightarrow> 'a \<Rightarrow> World \<times> Ending) \<Rightarrow> World \<times> Ending" where
  "thenEnd r f = (case r of (w, Inl e) \<Rightarrow> (w, e) | (w, Inr v) \<Rightarrow> f w v)"

text \<open>A call of the status manager on the step of the executor, and the answer of a collaborator.\<close>

definition engine :: "World \<Rightarrow> (StatusManager \<Rightarrow> LiFiStep \<Rightarrow> 'a outcome) \<Rightarrow> 'a partial" where
  "engine w f =
     (case w of (this, step, reqs) \<Rightarrow>
        (case f (statusManager this) (engineStep step) of
           (m, s, r) \<Rightarrow>
             ((this\<lparr> statusManager := m \<rparr>, step\<lparr> engineStep := s \<rparr>, reqs),
              (case r of Inl e \<Rightarrow> Inl (Throw (EngineError e)) | Inr v \<Rightarrow> Inr v))))"

definition answer :: "World \<Rightarrow> string + 'a \<Rightarrow> 'a partial" where
  "answer w r = (w, case r of Inl e \<Rightarrow> Inl (Throw (CollaboratorError e)) | Inr v \<Rightarrow> Inr v)"

text \<open>
  A collaborator that is given the status manager and the step, and leaves both changed.
\<close>

definition collaborate ::
  "World \<Rightarrow> (StatusManager \<Rightarrow> LiFiStepExtended \<Rightarrow> StatusManager \<times> LiFiStepExtended \<times> (string + 'a)) \<Rightarrow>
   'a partial" where
  "collaborate w f =
     (case w of (this, step, reqs) \<Rightarrow>
        (case f (statusManager this) step of
           (m, s, r) \<Rightarrow>
             ((this\<lparr> statusManager := m \<rparr>, s, reqs),
              (case r of Inl e \<Rightarrow> Inl (Throw (CollaboratorError e)) | Inr v \<Rightarrow> Inr v))))"

definition noParameters :: OptionalParameters where
  "noParameters =
     \<lparr> set_doneAt = None, set_failedAt = None, set_txHash = None, set_txLink = None, set_error = None,
       set_substatus = None, set_substatusMessage = None, set_multisigTxHash = None \<rparr>"

definition walletChangedMessage :: string where
  "walletChangedMessage =
     ''The wallet address that requested the quote does not match the wallet address attempting to sign the transaction.''"

text \<open>\<open>checkClient\<close> (lines 67 to 117); the branch of a changed wallet first.\<close>

definition walletChanged :: "Collaborators \<Rightarrow> World \<Rightarrow> Process option \<Rightarrow> Client option partial" where
  "walletChanged c w process' =
     thenDo
       (case process' of
          Some p \<Rightarrow> (w, Inr p)
        | None \<Rightarrow>
            engine w (\<lambda>m s. findOrCreateProcess_object (getProcessMessage c) (Date_now c 93) m s
                               TRANSACTION None None))
       (\<lambda>w1 processToUpdate.
          thenDo
            (engine w1 (\<lambda>m s. updateProcess (getProcessMessage c) (Date_now c 100) m s
                                 (ptype processToUpdate) FAILED
                                 (Some (noParameters\<lparr> set_error :=
                                    Some (Some (ProcessError (WalletChangedDuringExecution c)
                                                  walletChangedMessage)) \<rparr>))))
            (\<lambda>w2 _.
               thenDo (engine w2 (\<lambda>m s. updateExecution m s FAILED))
                 (\<lambda>w3 _.
                    (case w3 of (this3, step3, reqs3) \<Rightarrow>
                       (case parseEVMErrors c
                               (TransactionError (WalletChangedDuringExecution c) walletChangedMessage)
                               step3 process' of
                          (code', cause) \<Rightarrow> (w3, Inl (Throw (SDKError code' cause))))))))"

definition checkClient :: "Collaborators \<Rightarrow> World \<Rightarrow> Process option \<Rightarrow> Client option partial" where
  "checkClient c w process' =
     (case w of (this, step, reqs) \<Rightarrow>
        thenDo
          (collaborate w (\<lambda>m s. switchChain c (client this) m s (allowUserInteraction this)))
          (\<lambda>w1 updatedClient.
             (case w1 of (this1, step1, reqs1) \<Rightarrow>
                (let this2 = (case updatedClient of
                                Some cl \<Rightarrow> this1\<lparr> client := cl \<rparr>
                              | None \<Rightarrow> this1);
                     w2 = (this2, step1, reqs1)
                 in thenDo
                      (case account (client this2) of
                         Some a \<Rightarrow> (w2, Inr (Some (address a)))
                       | None \<Rightarrow>
                           answer w2
                             (case getAddresses c (client this2) of
                                Inl e \<Rightarrow> Inl e
                              | Inr accountAddresses \<Rightarrow>
                                  Inr (case accountAddresses of [] \<Rightarrow> None | x # _ \<Rightarrow> Some x)))
                      (\<lambda>w3 accountAddress.
                         if accountAddress \<noteq> fromAddress (action step1)
                         then walletChanged c w3 process'
                         else (w3, Inr updatedClient))))))"

text \<open>
  The local variables that \<open>executeStep\<close> has computed when it reaches the \<open>try\<close> block.
\<close>

record Locals =
  fromChain :: Chain
  toChain :: Chain
  atomicBatchSupported :: bool
  isBridgeExecution :: bool
  isPermitStep :: bool
  nativePermit :: NativePermit
  permitSupported :: bool
  calls :: "Call list"

text \<open>
  \<open>executeStep\<close> from its first line to the process of the swap or bridge (lines 119 to
  227). The steps after the first check of the client are \<open>executeStep_configure\<close>.
\<close>

definition executeStep_configure :: "Collaborators \<Rightarrow> World \<Rightarrow> (Locals \<times> Process) partial" where
  "executeStep_configure c w =
     thenDo (answer w (getChainById c (fromChainId (action (fst (snd w))))))
       (\<lambda>w1 fromChain'.
     thenDo (answer w1 (getChainById c (toChainId (action (fst (snd w1))))))
       (\<lambda>w2 toChain'.
          (case w2 of (this, step, reqs) \<Rightarrow>
             (let atomicBatchSupported' =
                    (case getCapabilities c (client this) of
                       Inl _ \<Rightarrow> False
                     | Inr capabilities \<Rightarrow> capabilities (chain_id fromChain'));
                  isBridgeExecution' = (chain_id fromChain' \<noteq> chain_id toChain');
                  currentProcessType = (if isBridgeExecution' then CROSS_CHAIN else SWAP)
              in (case execution (engineStep step) of
                    None \<Rightarrow> (w2, Inl (Throw TypeError))
                  | Some ex \<Rightarrow>
                      (let existingProcess = find (\<lambda>p. ptype p = currentProcessType) (process ex);
                           isPermitStep' = isEVMPermitStep c step
                       in thenDo
                            (answer w2 (getNativePermit c (client this) fromChain'
                                          (fromToken_address (action step))))
                            (\<lambda>w3 nativePermit'.
                               (let nativePermitSupported =
                                      (permit2Proxy fromChain' \<noteq> None \<and> supported nativePermit'
                                       \<and> \<not> atomicBatchSupported' \<and> \<not> isPermitStep');
                                    permit2Supported =
                                      (permit2 fromChain' \<noteq> None \<and> permit2Proxy fromChain' \<noteq> None
                                       \<and> \<not> atomicBatchSupported');
                                    permitSupported' = (permit2Supported \<or> nativePermitSupported);
                                    checkForAllowance =
                                      ((case existingProcess of
                                          None \<Rightarrow> True | Some p \<Rightarrow> txHash p = None)
                                       \<and> \<not> isZeroAddress c (fromToken_address (action step))
                                       \<and> \<not> nativePermitSupported)
                                in thenDo
                                     (if checkForAllowance
                                      then thenDo
                                             (collaborate w3
                                                (\<lambda>m s. checkAllowance c (client (fst w3)) fromChain' m s
                                                          (allowUserInteraction (fst w3))
                                                          atomicBatchSupported' permit2Supported))
                                             (\<lambda>w4 data'.
                                                (w4, Inr
                                                   (case data' of
                                                      None \<Rightarrow> []
                                                    | Some d \<Rightarrow>
                                                        if atomicBatchSupported'
                                                        then [\<lparr> call_data = Some d,
                                                                call_to = Some (fromToken_address
                                                                           (action (fst (snd w4)))),
                                                                call_value = None,
                                                                call_chainId = Some (fromToken_chainId
                                                                           (action (fst (snd w4)))) \<rparr>]
                                                        else [])))
                                      else (w3, Inr []))
                                     (\<lambda>w5 calls'.
                                        thenDo
                                          (engine w5
                                             (\<lambda>m s. findOrCreateProcess_object (getProcessMessage c)
                                                       (Date_now c 223) m s currentProcessType
                                                       (Some (chain_id fromChain')) None))
                                          (\<lambda>w6 process1.
                                             (w6, Inr
                                                (\<lparr> fromChain = fromChain', toChain = toChain',
                                                   atomicBatchSupported = atomicBatchSupported',
                                                   isBridgeExecution = isBridgeExecution',
                                                   isPermitStep = isPermitStep',
                                                   nativePermit = nativePermit',
                                                   permitSupported = permitSupported',
                                                   calls = calls' \<rparr>,
                                                 process1))))))))))))"

definition executeStep_start :: "Collaborators \<Rightarrow> World \<Rightarrow> (Locals \<times> Process) partial" where
  "executeStep_start c w =
     thenDo (engine w initExecutionObject)
       (\<lambda>w1 execution1.
          (case w1 of (this, step, reqs) \<Rightarrow>
             (let step1 = step\<lparr> engineStep := (engineStep step)\<lparr> execution := Some execution1 \<rparr> \<rparr>;
                  destinationChainProcess = find (\<lambda>p. ptype p = RECEIVING_CHAIN) (process execution1)
              in if (case destinationChainProcess of None \<Rightarrow> None | Some p \<Rightarrow> substatus p)
                    \<noteq> Some ''WAIT_DESTINATION_TRANSACTION''
                 then thenDo (checkClient c (this, step1, reqs) None)
                        (\<lambda>w2 updatedClient.
                           if updatedClient = None then (w2, Inl Return)
                           else executeStep_configure c w2)
                 else executeStep_configure c (this, step1, reqs))))"

text \<open>
  The \<open>catch\<close> block (lines 492 to 508), for an exception thrown in the \<open>try\<close> block while
  the variable \<open>process\<close> holds the process given: the process and the execution are marked
  \<open>FAILED\<close> and the parsed error is thrown. An exception of the status manager in the block
  leaves \<open>executeStep\<close> as it is.
\<close>

definition executeStep_catch :: "Collaborators \<Rightarrow> Exception \<Rightarrow> World \<Rightarrow> Process \<Rightarrow> World \<times> Ending" where
  "executeStep_catch c e w process1 =
     (case parseEVMErrors c e (fst (snd w)) (Some process1) of
        (code', cause) \<Rightarrow>
          thenEnd
            (engine w (\<lambda>m s. updateProcess (getProcessMessage c) (Date_now c 494) m s (ptype process1) FAILED
                                (Some (noParameters\<lparr> set_error := Some (Some (ProcessError code' cause)) \<rparr>))))
            (\<lambda>w1 _.
               thenEnd (engine w1 (\<lambda>m s. updateExecution m s FAILED))
                 (\<lambda>w2 _. (w2, Throw (SDKError code' cause)))))"

text \<open>A part of the \<open>try\<close> block: what it throws goes to the \<open>catch\<close> block.\<close>

definition catching :: "Collaborators \<Rightarrow> Process \<Rightarrow> 'a partial \<Rightarrow> 'a partial" where
  "catching c process1 r =
     (case r of
        (w, Inl (Throw e)) \<Rightarrow> (case executeStep_catch c e w process1 of (w', e') \<Rightarrow> (w', Inl e'))
      | _ \<Rightarrow> r)"

text \<open>\<open>{ ...transactionRequest, ...customizedTransactionRequest }\<close>: the fields of the second override.\<close>

definition mergeParameters :: "TransactionParameters \<Rightarrow> TransactionParameters \<Rightarrow> TransactionParameters" where
  "mergeParameters a b =
     \<lparr> tx_to = (case tx_to b of None \<Rightarrow> tx_to a | Some v \<Rightarrow> Some v),
       tx_from = (case tx_from b of None \<Rightarrow> tx_from a | Some v \<Rightarrow> Some v),
       tx_data = (case tx_data b of None \<Rightarrow> tx_data a | Some v \<Rightarrow> Some v),
       tx_value = (case tx_value b of None \<Rightarrow> tx_value a | Some v \<Rightarrow> Some v),
       tx_gas = (case tx_gas b of None \<Rightarrow> tx_gas a | Some v \<Rightarrow> Some v),
       tx_gasPrice = (case tx_gasPrice b of None \<Rightarrow> tx_gasPrice a | Some v \<Rightarrow> Some v),
       tx_maxFeePerGas = (case tx_maxFeePerGas b of None \<Rightarrow> tx_maxFeePerGas a | Some v \<Rightarrow> Some v),
       tx_maxPriorityFeePerGas =
         (case tx_maxPriorityFeePerGas b of None \<Rightarrow> tx_maxPriorityFeePerGas a | Some v \<Rightarrow> Some v) \<rparr>"

text \<open>
  The creation of the transaction request when the step has none (lines 252 to 285): the
  quote of the relayer or the transaction of the step, asked with the step without its
  execution, the comparison with the step, and
  \<open>Object.assign(step, { ...comparedStep, execution: step.execution })\<close>, which keeps an
  optional field of the step that the compared step does not have.
\<close>

definition Object_assign_compared :: "LiFiStepExtended \<Rightarrow> LiFiStepExtended \<Rightarrow> LiFiStepExtended" where
  "Object_assign_compared step comparedStep =
     \<lparr> engineStep = \<lparr> step_id = step_id (engineStep comparedStep), execution = execution (engineStep step) \<rparr>,
       action = action comparedStep,
       transactionRequest =
         (case transactionRequest comparedStep of None \<Rightarrow> transactionRequest step | Some v \<Rightarrow> Some v),
       step_permitData =
         (case step_permitData comparedStep of None \<Rightarrow> step_permitData step | Some v \<Rightarrow> Some v),
       step_permit = (case step_permit comparedStep of None \<Rightarrow> step_permit step | Some v \<Rightarrow> Some v),
       step_witness = (case step_witness comparedStep of None \<Rightarrow> step_witness step | Some v \<Rightarrow> Some v) \<rparr>"

definition executeStep_request :: "Collaborators \<Rightarrow> Locals \<Rightarrow> World \<Rightarrow> unit partial" where
  "executeStep_request c l w =
     (case w of (this, step, reqs) \<Rightarrow>
        if transactionRequest step = None
        then (let stepBase = step\<lparr> engineStep := (engineStep step)\<lparr> execution := None \<rparr> \<rparr>
              in thenDo
                   (if isPermitStep l
                    then answer w
                           (case getRelayerQuote c stepBase of
                              Inl e \<Rightarrow> Inl e
                            | Inr quoteStep \<Rightarrow>
                                Inr (quoteStep\<lparr> engineStep :=
                                       (engineStep quoteStep)\<lparr> step_id := step_id (engineStep stepBase) \<rparr> \<rparr>))
                    else answer w (getStepTransaction c stepBase))
                   (\<lambda>w1 updatedStep.
                      thenDo
                        (collaborate w1
                           (\<lambda>m s. stepComparison c m s updatedStep (allowUserInteraction (fst w1))))
                        (\<lambda>w2 comparedStep.
                           (case w2 of (this2, step2, reqs2) \<Rightarrow>
                              ((this2, Object_assign_compared step2 comparedStep, reqs2), Inr ())))))
        else (w, Inr ()))"

text \<open>
  The \<open>try\<close> block up to the status write that announces the required action (lines 231 to
  336): for a process that has a hash, the check of the client and the wait for that
  transaction; otherwise the start of the process, the balance, the transaction request,
  its parameters, the hook and the check of the client. It hands on the parameters and
  the process with which line 338 is reached.
\<close>

definition executeStep_prepare ::
  "Collaborators \<Rightarrow> Locals \<Rightarrow> World \<Rightarrow> Process \<Rightarrow> (TransactionParameters \<times> Process) partial" where
  "executeStep_prepare c l w process1 =
     (case txHash process1 of
        Some txHash1 \<Rightarrow>
          catching c process1
            (thenDo (checkClient c w (Some process1))
               (\<lambda>w1 updatedClient.
                  if updatedClient = None then (w1, Inl Return)
                  else (w1, Inl (AwaitTransaction txHash1 process1))))
      | None \<Rightarrow>
          thenDo
            (catching c process1
               (engine w (\<lambda>m s. updateProcess (getProcessMessage c) (Date_now c 242) m s
                                   (ptype process1) STARTED None)))
            (\<lambda>w1 process2.
               catching c process2
                 (thenDo
                    (case account (client (fst w1)) of
                       None \<Rightarrow> (w1, Inl (Throw TypeError))
                     | Some a \<Rightarrow> answer w1 (checkBalance c (address a) (fst (snd w1))))
                    (\<lambda>w2 _.
                       thenDo (executeStep_request c l w2)
                         (\<lambda>w3 _.
                            (case transactionRequest (fst (snd w3)) of
                               None \<Rightarrow>
                                 (w3, Inl (Throw (TransactionError (TransactionUnprepared c)
                                                    ''Unable to prepare transaction.'')))
                             | Some r \<Rightarrow>
                                 thenDo
                                   (case account (client (fst w3)) of
                                      Some a \<Rightarrow>
                                        if local a then answer w3 (getMaxPriorityFeePerGas c (client (fst w3)))
                                        else (w3, Inr (request_maxPriorityFeePerGas r))
                                    | None \<Rightarrow> (w3, Inr (request_maxPriorityFeePerGas r)))
                                   (\<lambda>w4 maxPriorityFeePerGas.
                                      (let transactionRequest1 =
                                             \<lparr> tx_to = request_to r, tx_from = request_from r,
                                               tx_data = request_data r, tx_value = request_value r,
                                               tx_gas = request_gasLimit r, tx_gasPrice = None,
                                               tx_maxFeePerGas = None,
                                               tx_maxPriorityFeePerGas = maxPriorityFeePerGas \<rparr>
                                       in thenDo
                                            (case updateTransactionRequestHook c of
                                               None \<Rightarrow> (w4, Inr transactionRequest1)
                                             | Some hook \<Rightarrow>
                                                 answer w4
                                                   (case hook transactionRequest1 of
                                                      Inl e \<Rightarrow> Inl e
                                                    | Inr customized \<Rightarrow>
                                                        Inr (mergeParameters transactionRequest1 customized)))
                                            (\<lambda>w5 transactionRequest2.
                                               thenDo (checkClient c w5 (Some process2))
                                                 (\<lambda>w6 updatedClient.
                                                    if updatedClient = None then (w6, Inl Return)
                                                    else (w6, Inr (transactionRequest2, process2))))))))))))"

text \<open>
  The submission (lines 348 to 427): the atomic batch; or, after the signature of a permit,
  the new estimate of the gas and the status write of line 395, the relayer or the
  wallet. It hands on the hash, or the task of the relayer, and the process.
\<close>

definition executeStep_permit ::
  "Collaborators \<Rightarrow> Locals \<Rightarrow> World \<Rightarrow> TransactionParameters \<Rightarrow> Process \<Rightarrow>
   (TransactionParameters \<times> PermitSignature option \<times> Process) partial" where
  "executeStep_permit c l w transactionRequest1 process1 =
     thenDo
       (catching c process1
          (case w of (this, step, reqs) \<Rightarrow>
             (let signParameters =
                    \<lparr> sp_transactionRequest = transactionRequest1, sp_chain = fromChain l,
                      sp_tokenAddress = fromToken_address (action step),
                      sp_amount = fromAmount (action step), sp_nativePermit = nativePermit l,
                      sp_permitData = (if isPermitStep l then step_permitData step else None),
                      sp_useWitness = isPermitStep l \<rparr>
              in thenDo
                   (answer (this, step, reqs @ [SignPermitMessage signParameters])
                      (signPermitMessage c signParameters))
                   (\<lambda>w1 permitSignature.
                      (case w1 of (this1, step1, reqs1) \<Rightarrow>
                         (let transactionRequest2 =
                                transactionRequest1\<lparr> tx_to := permit2Proxy (fromChain l),
                                                       tx_data := Some (sig_data permitSignature) \<rparr>;
                              gasParameters =
                                \<lparr> eg_account = account (client this1), eg_to = tx_to transactionRequest2,
                                  eg_data = tx_data transactionRequest2,
                                  eg_value = tx_value transactionRequest2 \<rparr>;
                              transactionRequest3 =
                                transactionRequest2\<lparr> tx_gas :=
                                  (case estimateGas c gasParameters of
                                     Inl _ \<Rightarrow> None
                                   | Inr g \<Rightarrow> Some g) \<rparr>
                          in ((this1, step1, reqs1 @ [EstimateGas gasParameters]),
                              Inr (transactionRequest3, permitSignature))))))))
       (\<lambda>w2 signed.
          (case signed of (transactionRequest3, permitSignature) \<Rightarrow>
             thenDo
               (catching c process1
                  (engine w2 (\<lambda>m s. updateProcess (getProcessMessage c) (Date_now c 395) m s
                                      (ptype process1) ACTION_REQUIRED None)))
               (\<lambda>w3 process2. (w3, Inr (transactionRequest3, Some permitSignature, process2)))))"

definition executeStep_submit ::
  "Collaborators \<Rightarrow> Locals \<Rightarrow> World \<Rightarrow> TransactionParameters \<Rightarrow> Process \<Rightarrow> (string \<times> Process) partial" where
  "executeStep_submit c l w transactionRequest1 process1 =
     (if atomicBatchSupported l
      then catching c process1
             (case w of (this, step, reqs) \<Rightarrow>
                (let transferCall =
                       \<lparr> call_data = tx_data transactionRequest1, call_to = tx_to transactionRequest1,
                         call_value = tx_value transactionRequest1,
                         call_chainId = Some (chain_id (fromChain l)) \<rparr>;
                     callsParameters =
                       \<lparr> sc_account = account (client this), sc_calls = calls l @ [transferCall] \<rparr>
                 in thenDo
                      (answer (this, step, reqs @ [SendCalls callsParameters]) (sendCalls c callsParameters))
                      (\<lambda>w1 txHash1. (w1, Inr (txHash1, process1)))))
      else thenDo
             (if permitSupported l then executeStep_permit c l w transactionRequest1 process1
              else (w, Inr (transactionRequest1, None, process1)))
             (\<lambda>w1 signed.
                (case signed of (transactionRequest2, permitSignature, process2) \<Rightarrow>
                   catching c process2
                     (case w1 of (this1, step1, reqs1) \<Rightarrow>
                        (case (if isPermitStep l then permitSignature else None) of
                           Some sig \<Rightarrow>
                             (case account (client this1) of
                                None \<Rightarrow> (w1, Inl (Throw TypeError))
                              | Some a \<Rightarrow>
                                  (let relayParameters =
                                         \<lparr> rl_tokenOwner = address a, rl_chainId = chain_id (fromChain l),
                                           rl_permit = step_permit step1, rl_witness = step_witness step1,
                                           rl_signedPermitData = signature sig,
                                           rl_callData = tx_data transactionRequest2 \<rparr>
                                   in thenDo
                                        (answer (this1, step1, reqs1 @ [RelayTransaction relayParameters])
                                           (relayTransaction c relayParameters))
                                        (\<lambda>w2 taskId. (w2, Inr (taskId, process2)))))
                         | None \<Rightarrow>
                             (let sendParameters =
                                    \<lparr> st_to = tx_to transactionRequest2, st_account = account (client this1),
                                      st_data = tx_data transactionRequest2,
                                      st_value = tx_value transactionRequest2,
                                      st_gas = tx_gas transactionRequest2,
                                      st_gasPrice = tx_gasPrice transactionRequest2,
                                      st_maxFeePerGas = tx_maxFeePerGas transactionRequest2,
                                      st_maxPriorityFeePerGas = tx_maxPriorityFeePerGas transactionRequest2 \<rparr>
                              in thenDo
                                   (answer (this1, step1, reqs1 @ [SendTransaction sendParameters])
                                      (sendTransaction c sendParameters))
                                   (\<lambda>w2 txHash1. (w2, Inr (txHash1, process2)))))))))"

text \<open>
  \<open>executeStep\<close> from the status write that announces the required action (line 338): the
  write, the pause when user interaction is not allowed (line 344), the submission.
\<close>

definition executeStep_send ::
  "Collaborators \<Rightarrow> Locals \<Rightarrow> World \<Rightarrow> TransactionParameters \<Rightarrow> Process \<Rightarrow> World \<times> Ending" where
  "executeStep_send c l w transactionRequest1 process1 =
     thenEnd
       (catching c process1
          (engine w (\<lambda>m s. updateProcess (getProcessMessage c) (Date_now c 338) m s (ptype process1)
                              (if permitSupported l then PERMIT_REQUIRED else ACTION_REQUIRED) None)))
       (\<lambda>w1 process2.
          if \<not> allowUserInteraction (fst w1) then (w1, Return)
          else thenEnd (executeStep_submit c l w1 transactionRequest1 process2)
                 (\<lambda>w2 submitted.
                    (case submitted of (txHash1, process3) \<Rightarrow> (w2, AwaitTransaction txHash1 process3))))"

text \<open>
  \<open>executeStep\<close>: the invocation up to line 338, which it reaches with the local variables,
  the transaction request and the process that \<open>executeStep_reach\<close> hands on, and from
  there.
\<close>

definition executeStep_reach ::
  "Collaborators \<Rightarrow> World \<Rightarrow> (Locals \<times> TransactionParameters \<times> Process) partial" where
  "executeStep_reach c w =
     thenDo (executeStep_start c w)
       (\<lambda>w1 started.
          (case started of (l, process1) \<Rightarrow>
             if pstatus process1 \<noteq> DONE
             then thenDo (executeStep_prepare c l w1 process1)
                    (\<lambda>w2 prepared.
                       (case prepared of (transactionRequest1, process2) \<Rightarrow>
                          (w2, Inr (l, transactionRequest1, process2))))
             else (w1, Inl (TransactionDone process1))))"

definition executeStep :: "Collaborators \<Rightarrow> World \<Rightarrow> World \<times> Ending" where
  "executeStep c w =
     thenEnd (executeStep_reach c w)
       (\<lambda>w1 reached.
          (case reached of (l, transactionRequest1, process1) \<Rightarrow>
             executeStep_send c l w1 transactionRequest1 process1))"

section \<open>The permit message builder (src/unnamed/part_001)\<close>

type_synonym Address = string

text \<open>A field of a typed-data type: its name and its type.\<close>

type_synonym TypedDataParameter = "string \<times> string"

text \<open>\<open>TypedData\<close>, a record from type names to their fields.\<close>

type_synonym TypedData = "string \<rightharpoonup> TypedDataParameter list"

record 'w Witness =
  witness :: 'w
  witnessTypeName :: string
  witnessType :: TypedData

record TokenPermissions =
  token :: Address
  amount :: int

text \<open>
  \<open>PermitTransferFrom\<close> and \<open>PermitBatchTransferFrom\<close> differ in \<open>permitted\<close> alone, one
  \<open>TokenPermissions\<close> or an array of them. The interfaces do not declare the property
  \<open>witness\<close>, but the builders write it on the permit object: \<open>witness_property\<close>, which is
  \<open>None\<close> on an object that has no such property.
\<close>

record ('p, 'w) Permit =
  permitted :: 'p
  spender :: Address
  nonce :: int
  deadline :: int
  witness_property :: "'w option"

type_synonym 'w PermitTransferFrom = "(TokenPermissions, 'w) Permit"
type_synonym 'w PermitBatchTransferFrom = "(TokenPermissions list, 'w) Permit"

text \<open>\<open>PermitTransferFromData\<close> and \<open>PermitBatchTransferFromData\<close>.\<close>

record ('d, 'p, 'w) PermitData =
  domain :: 'd
  types :: TypedData
  permit_values :: "('p, 'w) Permit"

text \<open>
  The constants of ./constants.js and the function \<open>permit2Domain\<close> of ./domain.js are not
  among the sources: they are parameters of the builders.
\<close>

record 'd Permit2 =
  MaxSigDeadline :: int
  MaxSignatureTransferAmount :: int
  MaxUnorderedNonce :: int
  permit2Domain :: "Address \<Rightarrow> int \<Rightarrow> 'd"

text \<open>
  Modelled from the spec: \<open>invariant\<close> (of utils/invariant.js, which is not among the
  sources) fails with the named validation error when its condition is false.
\<close>

definition invariant :: "bool \<Rightarrow> string \<Rightarrow> string + unit" where
  "invariant condition name = (if condition then Inr () else Inl name)"

definition TOKEN_PERMISSIONS :: "TypedDataParameter list" where
  "TOKEN_PERMISSIONS = [(''token'', ''address''), (''amount'', ''uint256'')]"

definition PERMIT_TRANSFER_FROM_TYPES :: TypedData where
  "PERMIT_TRANSFER_FROM_TYPES =
     [''TokenPermissions'' \<mapsto> TOKEN_PERMISSIONS,
      ''PermitTransferFrom'' \<mapsto>
        [(''permitted'', ''TokenPermissions''), (''spender'', ''address''),
         (''nonce'', ''uint256''), (''deadline'', ''uint256'')]]"

definition PERMIT_BATCH_TRANSFER_FROM_TYPES :: TypedData where
  "PERMIT_BATCH_TRANSFER_FROM_TYPES =
     [''TokenPermissions'' \<mapsto> TOKEN_PERMISSIONS,
      ''PermitBatchTransferFrom'' \<mapsto>
        [(''permitted'', ''TokenPermissions[]''), (''spender'', ''address''),
         (''nonce'', ''uint256''), (''deadline'', ''uint256'')]]"

definition validateTokenPermissions :: "'d Permit2 \<Rightarrow> TokenPermissions \<Rightarrow> string + unit" where
  "validateTokenPermissions c permissions =
     invariant (MaxSignatureTransferAmount c \<ge> amount permissions) ''AMOUNT_OUT_OF_RANGE''"

text \<open>\<open>permit.permitted.forEach(validateTokenPermissions)\<close>: the first failure ends the loop.\<close>

fun forEach_validateTokenPermissions :: "'d Permit2 \<Rightarrow> TokenPermissions list \<Rightarrow> string + unit" where
  "forEach_validateTokenPermissions c [] = Inr ()"
| "forEach_validateTokenPermissions c (p # ps) =
     (case validateTokenPermissions c p of
        Inl e \<Rightarrow> Inl e
      | Inr _ \<Rightarrow> forEach_validateTokenPermissions c ps)"

text \<open>
  A builder returns, besides its data, the permit object of the caller as the call leaves
  it: \<open>Object.assign(permit, { witness: witness.witness })\<close> writes to that object and
  returns it, so that \<open>values\<close> and the caller's permit are one object. A call that
  throws has not written anything: every check comes before the assignment.
\<close>

definition getPermitTransferData ::
  "'d Permit2 \<Rightarrow> 'w PermitTransferFrom \<Rightarrow> Address \<Rightarrow> int \<Rightarrow> 'w Witness option \<Rightarrow>
   string + ('w PermitTransferFrom \<times> ('d, TokenPermissions, 'w) PermitData)" where
  "getPermitTransferData c permit permit2Address chainId witness' =
     (case invariant (MaxSigDeadline c \<ge> deadline permit) ''SIG_DEADLINE_OUT_OF_RANGE'' of
        Inl e \<Rightarrow> Inl e
      | Inr _ \<Rightarrow>
     (case invariant (MaxUnorderedNonce c \<ge> nonce permit) ''NONCE_OUT_OF_RANGE'' of
        Inl e \<Rightarrow> Inl e
      | Inr _ \<Rightarrow>
     (let domain' = permit2Domain c permit2Address chainId
      in case validateTokenPermissions c (permitted permit) of
           Inl e \<Rightarrow> Inl e
         | Inr _ \<Rightarrow>
             (let types' =
                    (case witness' of
                       Some w \<Rightarrow>
                         ([''TokenPermissions'' \<mapsto> TOKEN_PERMISSIONS] ++ witnessType w)
                           (''PermitWitnessTransferFrom'' \<mapsto>
                              [(''permitted'', ''TokenPermissions''), (''spender'', ''address''),
                               (''nonce'', ''uint256''), (''deadline'', ''uint256''),
                               (''witness'', witnessTypeName w)])
                     | None \<Rightarrow> PERMIT_TRANSFER_FROM_TYPES);
                  values' =
                    (case witness' of
                       Some w \<Rightarrow> permit\<lparr> witness_property := Some (witness w) \<rparr>
                     | None \<Rightarrow> permit)
              in Inr (values', \<lparr> domain = domain', types = types', permit_values = values' \<rparr>)))))"

definition getPermitBatchTransferData ::
  "'d Permit2 \<Rightarrow> 'w PermitBatchTransferFrom \<Rightarrow> Address \<Rightarrow> int \<Rightarrow> 'w Witness option \<Rightarrow>
   string + ('w PermitBatchTransferFrom \<times> ('d, TokenPermissions list, 'w) PermitData)" where
  "getPermitBatchTransferData c permit permit2Address chainId witness' =
     (case invariant (MaxSigDeadline c \<ge> deadline permit) ''SIG_DEADLINE_OUT_OF_RANGE'' of
        Inl e \<Rightarrow> Inl e
      | Inr _ \<Rightarrow>
     (case invariant (MaxUnorderedNonce c \<ge> nonce permit) ''NONCE_OUT_OF_RANGE'' of
        Inl e \<Rightarrow> Inl e
      | Inr _ \<Rightarrow>
     (let domain' = permit2Domain c permit2Address chainId
      in case forEach_validateTokenPermissions c (permitted permit) of
           Inl e \<Rightarrow> Inl e
         | Inr _ \<Rightarrow>
             (let types' =
                    (case witness' of
                       Some w \<Rightarrow>
                         (witnessType w)
                           (''TokenPermissions'' \<mapsto> TOKEN_PERMISSIONS,
                            ''PermitBatchWitnessTransferFrom'' \<mapsto>
                              [(''permitted'', ''TokenPermissions[]''), (''spender'', ''address''),
                               (''nonce'', ''uint256''), (''deadline'', ''uint256''),
                               (''witness'', witnessTypeName w)])
                     | None \<Rightarrow> PERMIT_BATCH_TRANSFER_FROM_TYPES);
                  values' =
                    (case witness' of
                       Some w \<Rightarrow> permit\<lparr> witness_property := Some (witness w) \<rparr>
                     | None \<Rightarrow> permit)
              in Inr (values', \<lparr> domain = domain', types = types', permit_values = values' \<rparr>)))))"

text \<open>
  The union \<open>PermitTransferFrom | PermitBatchTransferFrom\<close> and the union of the two data
  types. \<open>isPermitTransferFrom\<close> tests that \<open>permitted\<close> is not an array.
\<close>

datatype 'w AnyPermit =
  Single "'w PermitTransferFrom"
| Batch "'w PermitBatchTransferFrom"

datatype ('d, 'w) AnyPermitData =
  SingleData "('d, TokenPermissions, 'w) PermitData"
| BatchData "('d, TokenPermissions list, 'w) PermitData"

fun isPermitTransferFrom :: "'w AnyPermit \<Rightarrow> bool" where
  "isPermitTransferFrom (Single _) = True"
| "isPermitTransferFrom (Batch _) = False"

fun getPermitData ::
  "'d Permit2 \<Rightarrow> 'w AnyPermit \<Rightarrow> Address \<Rightarrow> int \<Rightarrow> 'w Witness option \<Rightarrow>
   string + ('w AnyPermit \<times> ('d, 'w) AnyPermitData)" where
  "getPermitData c (Single permit) permit2Address chainId witness' =
     (case getPermitTransferData c permit permit2Address chainId witness' of
        Inl e \<Rightarrow> Inl e
      | Inr (permit', d) \<Rightarrow> Inr (Single permit', SingleData d))"
| "getPermitData c (Batch permit) permit2Address chainId witness' =
     (case getPermitBatchTransferData c permit permit2Address chainId witness' of
        Inl e \<Rightarrow> Inl e
      | Inr (permit', d) \<Rightarrow> Inr (Batch permit', BatchData d))"

text \<open>
  \<open>hashTypedData\<close> (of viem) is the parameter \<open>H\<close>, applied to the domain, the types, the
  primary type and the message, which is a copy of \<open>values\<close>.
\<close>

fun hash ::
  "('d \<Rightarrow> TypedData \<Rightarrow> string \<Rightarrow> 'w AnyPermit \<Rightarrow> 'h) \<Rightarrow> 'd Permit2 \<Rightarrow> 'w AnyPermit \<Rightarrow> Address \<Rightarrow> int \<Rightarrow>
   'w Witness option \<Rightarrow> string + ('w AnyPermit \<times> 'h)" where
  "hash H c (Single permit) permit2Address chainId witness' =
     (case getPermitTransferData c permit permit2Address chainId witness' of
        Inl e \<Rightarrow> Inl e
      | Inr (permit', d) \<Rightarrow>
          Inr (Single permit',
               H (domain d) (types d)
                 (if witness' \<noteq> None then ''PermitWitnessTransferFrom'' else ''PermitTransferFrom'')
                 (Single (permit_values d))))"
| "hash H c (Batch permit) permit2Address chainId witness' =
     (case getPermitBatchTransferData c permit permit2Address chainId witness' of
        Inl e \<Rightarrow> Inl e
      | Inr (permit', d) \<Rightarrow>
          Inr (Batch permit',
               H (domain d) (types d)
                 (if witness' \<noteq> None then ''PermitBatchWitnessTransferFrom'' else ''PermitBatchTransferFrom'')
                 (Batch (permit_values d))))"

subsection \<open>Both kinds of permit\<close>

text \<open>Projections of the two unions, for stating properties of both kinds of permit at once.\<close>

fun permitDeadline :: "'w AnyPermit \<Rightarrow> int" where
  "permitDeadline (Single p) = deadline p"
| "permitDeadline (Batch p) = deadline p"

fun permitNonce :: "'w AnyPermit \<Rightarrow> int" where
  "permitNonce (Single p) = nonce p"
| "permitNonce (Batch p) = nonce p"

fun permitAmounts :: "'w AnyPermit \<Rightarrow> int list" where
  "permitAmounts (Single p) = [amount (permitted p)]"
| "permitAmounts (Batch p) = map amount (permitted p)"

fun dataDomain :: "('d, 'w) AnyPermitData \<Rightarrow> 'd" where
  "dataDomain (SingleData d) = domain d"
| "dataDomain (BatchData d) = domain d"

fun dataTypes :: "('d, 'w) AnyPermitData \<Rightarrow> TypedData" where
  "dataTypes (SingleData d) = types d"
| "dataTypes (BatchData d) = types d"

fun dataValues :: "('d, 'w) AnyPermitData \<Rightarrow> 'w AnyPermit" where
  "dataValues (SingleData d) = Single (permit_values d)"
| "dataValues (BatchData d) = Batch (permit_values d)"

text \<open>The permit object with the property \<open>witness\<close> written on it when a witness is given.\<close>

fun withWitness :: "'w Witness option \<Rightarrow> 'w AnyPermit \<Rightarrow> 'w AnyPermit" where
  "withWitness None P = P"
| "withWitness (Some w) (Single p) = Single (p\<lparr> witness_property := Some (witness w) \<rparr>)"
| "withWitness (Some w) (Batch p) = Batch (p\<lparr> witness_property := Some (witness w) \<rparr>)"

section \<open>Concrete inputs\<close>

text \<open>A process with no optional field, an engine with updates off, and an engine with one step.\<close>

definition bareProcess :: "ProcessType \<Rightarrow> Status \<Rightarrow> Process" where
  "bareProcess t s =
     \<lparr> ptype = t, pstatus = s, startedAt = 0, message = [],
       doneAt = None, failedAt = None, txHash = None, txLink = None,
       error = None, substatus = None, substatusMessage = None, multisigTxHash = None \<rparr>"

definition quietManager :: StatusManager where
  "quietManager = \<lparr> route = [], shouldUpdate = False, hookCalls = [] \<rparr>"

definition stepWith :: "Status \<Rightarrow> Process list \<Rightarrow> LiFiStep" where
  "stepWith s ps = \<lparr> step_id = ''step-1'', execution = Some \<lparr> status = s, process = ps \<rparr> \<rparr>"

definition noMessage :: "ProcessType \<Rightarrow> Status \<Rightarrow> string" where
  "noMessage t s = []"

text \<open>Parameters of the builders with small limits, a permit for one token, and a witness.\<close>

definition smallPermit2 :: "(Address \<times> int) Permit2" where
  "smallPermit2 =
     \<lparr> MaxSigDeadline = 1000, MaxSignatureTransferAmount = 1000, MaxUnorderedNonce = 1000,
       permit2Domain = (\<lambda>a n. (a, n)) \<rparr>"

definition tokenPermit :: "int \<Rightarrow> int \<Rightarrow> int \<Rightarrow> nat PermitTransferFrom" where
  "tokenPermit amt n dl =
     \<lparr> permitted = \<lparr> token = ''0xT'', amount = amt \<rparr>, spender = ''0xS'', nonce = n, deadline = dl,
       witness_property = None \<rparr>"

definition orderWitness :: "nat Witness" where
  "orderWitness =
     \<lparr> witness = 7, witnessTypeName = ''Order'', witnessType = [''Order'' \<mapsto> [(''id'', ''uint256'')]] \<rparr>"

text \<open>
  An invocation of \<open>executeStep\<close> that pauses: an executor whose user interaction and updates
  are off, with a wallet on the account of the step; the step of a swap of a native token
  on one chain, with an execution and no process yet; and collaborators that answer
  every request, on chains without permits.
\<close>

definition pausedExecutor :: EVMStepExecutor where
  "pausedExecutor =
     \<lparr> statusManager = quietManager, allowUserInteraction = False, allowExecution = True,
       client = \<lparr> account = Some \<lparr> address = ''0xFrom'', local = False \<rparr> \<rparr> \<rparr>"

definition quotedRequest :: StepRequest where
  "quotedRequest =
     \<lparr> request_to = Some ''0xTo'', request_from = Some ''0xFrom'', request_data = Some ''0xData'',
       request_value = Some 1000, request_gasLimit = Some 21000, request_maxPriorityFeePerGas = None \<rparr>"

definition swapStep :: "LiFiStep \<Rightarrow> StepRequest option \<Rightarrow> LiFiStepExtended" where
  "swapStep s r =
     \<lparr> engineStep = s,
       action = \<lparr> fromAddress = Some ''0xFrom'', fromChainId = 1, toChainId = 1,
                  fromToken_address = ''0x0000000000000000000000000000000000000000'',
                  fromToken_chainId = 1, fromAmount = 1000 \<rparr>,
       transactionRequest = r, step_permitData = None, step_permit = None, step_witness = None \<rparr>"

definition answering :: Collaborators where
  "answering =
     \<lparr> getProcessMessage = noMessage,
       Date_now = (\<lambda>_. 0),
       WalletChangedDuringExecution = 1,
       TransactionUnprepared = 2,
       switchChain = (\<lambda>cl m s allow. (m, s, Inr (Some cl))),
       getAddresses = (\<lambda>_. Inr []),
       getChainById = (\<lambda>i. Inr \<lparr> chain_id = i, permit2 = None, permit2Proxy = None \<rparr>),
       getCapabilities = (\<lambda>_. Inl ''no capabilities''),
       isEVMPermitStep = (\<lambda>_. False),
       getNativePermit = (\<lambda>_ _ _. Inr \<lparr> supported = False \<rparr>),
       isZeroAddress = (\<lambda>a. a = ''0x0000000000000000000000000000000000000000''),
       checkAllowance = (\<lambda>cl ch m s allow batch permit. (m, s, Inr None)),
       checkBalance = (\<lambda>_ _. Inr ()),
       getRelayerQuote = (\<lambda>s. Inl ''no relayer''),
       getStepTransaction = (\<lambda>s. Inr (s\<lparr> transactionRequest := Some quotedRequest \<rparr>)),
       stepComparison = (\<lambda>m s u allow. (m, s, Inr u)),
       getMaxPriorityFeePerGas = (\<lambda>_. Inr None),
       updateTransactionRequestHook = None,
       parseEVMErrors = (\<lambda>_ _ _. (0, ''unknown'')),
       sendCalls = (\<lambda>_. Inr ''0xBatch''),
       signPermitMessage = (\<lambda>_. Inr \<lparr> sig_data = ''0xPermitData'', signature = ''0xSignature'' \<rparr>),
       estimateGas = (\<lambda>_. Inr 21000),
       relayTransaction = (\<lambda>_. Inr ''task-1''),
       sendTransaction = (\<lambda>_. Inr ''0xHash'') \<rparr>"

definition swapLocals :: Locals where
  "swapLocals =
     \<lparr> fromChain = \<lparr> chain_id = 1, permit2 = None, permit2Proxy = None \<rparr>,
       toChain = \<lparr> chain_id = 1, permit2 = None, permit2Proxy = None \<rparr>,
       atomicBatchSupported = False, isBridgeExecution = False, isPermitStep = False,
       nativePermit = \<lparr> supported = False \<rparr>, permitSupported = False, calls = [] \<rparr>"

definition swapParameters :: TransactionParameters where
  "swapParameters =
     \<lparr> tx_to = Some ''0xTo'', tx_from = Some ''0xFrom'', tx_data = Some ''0xData'', tx_value = Some 1000,
       tx_gas = Some 21000, tx_gasPrice = None, tx_maxFeePerGas = None, tx_maxPriorityFeePerGas = None \<rparr>"

section \<open>Properties of the status engine\<close>

lemma stepAfter_triple [simp]: "stepAfter (m, step, r) = step"
  by (simp add: stepAfter_def)

lemma resultOf_triple [simp]: "resultOf (m, step, r) = r"
  by (simp add: resultOf_def)

lemma findIndex_ge: "- 1 \<le> findIndex P xs"
  by (induction xs) (auto simp: Let_def)

lemma findIndex_none_iff: "findIndex P xs = - 1 \<longleftrightarrow> (\<forall>x \<in> set xs. \<not> P x)"
proof (induction xs)
  case Nil
  show ?case by simp
next
  case (Cons x xs)
  have "- 1 \<le> findIndex P xs" by (rule findIndex_ge)
  with Cons show ?case by (auto simp: Let_def)
qed

lemma splice_minus_one: "splice_array (- 1) (Suc 0) xs = butlast xs"
proof (cases xs rule: rev_cases)
  case Nil
  then show ?thesis by (simp add: splice_array_def)
next
  case (snoc ys y)
  then show ?thesis by (simp add: splice_array_def Let_def)
qed

lemma propagate_step [simp]: "stepAfter (propagateAndReturn m step v) = step"
  by (simp add: propagateAndReturn_def stepAfter_def split: prod.splits sum.splits)

lemma propagate_result:
  "resultOf (propagateAndReturn m step v) =
     (if shouldUpdate m \<and> findIndex (\<lambda>routeStep. step_id routeStep = step_id step) (route m) = - 1
      then Inl CouldntFindStep else Inr v)"
  by (simp add: propagateAndReturn_def resultOf_def updateStepInRoute_def Let_def)

lemma removeProcess_absent_type:
  assumes "execution step = Some ex" and "\<forall>p \<in> set (process ex). ptype p \<noteq> type"
  shows "stepAfter (removeProcess m step type) = step\<lparr> execution := Some (ex\<lparr> process := butlast (process ex) \<rparr>) \<rparr>"
proof -
  from assms(2) have "findIndex (\<lambda>p. ptype p = type) (process ex) = - 1"
    by (simp add: findIndex_none_iff)
  with assms(1) show ?thesis
    by (simp add: removeProcess_def splice_minus_one)
qed

text \<open>
  Claim C5. For every step whose execution has the status \<open>FAILED\<close>, \<open>initExecutionObject\<close>
  sets the status of the execution to \<open>PENDING\<close> and leaves the process list as it is: the
  same processes, in the same order, with the same fields. The call returns that
  execution; it throws only when the propagation does, that is when updates are on and
  the route has no step with this identifier, and the step is then written all the same.
\<close>

theorem initExecutionObject_resume:
  assumes "execution step = Some e" and "status e = FAILED"
  shows "\<exists>e'. execution (stepAfter (initExecutionObject m step)) = Some e'
           \<and> status e' = PENDING \<and> process e' = process e
           \<and> step_id (stepAfter (initExecutionObject m step)) = step_id step
           \<and> (resultOf (initExecutionObject m step) = Inr e'
              \<or> resultOf (initExecutionObject m step) = Inl CouldntFindStep \<and> shouldUpdate m
                \<and> findIndex (\<lambda>routeStep. step_id routeStep = step_id step) (route m) = - 1)"
proof -
  have eq: "initExecutionObject m step =
        propagateAndReturn m (step\<lparr> execution := Some (e\<lparr> status := PENDING \<rparr>) \<rparr>) (e\<lparr> status := PENDING \<rparr>)"
    using assms by (simp add: initExecutionObject_def Let_def)
  show ?thesis
    unfolding eq by (rule exI [of _ "e\<lparr> status := PENDING \<rparr>"]) (simp add: propagate_result)
qed

lemma findIndex_find:
  "find P xs = Some x \<Longrightarrow>
     0 \<le> findIndex P xs \<and> nat (findIndex P xs) < length xs \<and> xs ! nat (findIndex P xs) = x
     \<and> updateFirst P f xs = xs[nat (findIndex P xs) := f x]"
proof (induction xs)
  case Nil
  then show ?case by simp
next
  case (Cons y ys)
  show ?case
  proof (cases "P y")
    case True
    with Cons.prems show ?thesis by simp
  next
    case False
    with Cons.prems have "find P ys = Some x" by simp
    from Cons.IH [OF this] False show ?thesis
      by (simp add: Let_def nat_add_distrib)
  qed
qed

lemma findIndex_first: "int j < findIndex P xs \<Longrightarrow> \<not> P (xs ! j)"
proof (induction xs arbitrary: j)
  case Nil
  then show ?case by simp
next
  case (Cons y ys)
  show ?case
  proof (cases "P y")
    case True
    with Cons.prems show ?thesis by simp
  next
    case False
    show ?thesis
    proof (cases j)
      case 0
      with False show ?thesis by simp
    next
      case (Suc k)
      with Cons.prems False have "int k < findIndex P ys"
        by (simp add: Let_def split: if_splits)
      from Cons.IH [OF this] Suc show ?thesis by simp
    qed
  qed
qed

lemma length_updateFirst [simp]: "length (updateFirst P f xs) = length xs"
  by (induction xs) auto

lemma map_updateFirst: "(\<And>x. g (f x) = g x) \<Longrightarrow> map g (updateFirst P f xs) = map g xs"
  by (induction xs) auto

lemma find_updateFirst:
  "find P xs = Some x \<Longrightarrow> P (f x) \<Longrightarrow> find P (updateFirst P f xs) = Some (f x)"
  by (induction xs) (auto split: if_splits)

lemma set_sortProcesses [simp]: "set (sortProcesses ps) = set ps"
  by (auto simp: sortProcesses_def)

lemma distinct_sortProcesses:
  assumes "distinct (map ptype ps)"
  shows "distinct (map ptype (sortProcesses ps))"
proof -
  from assms have inj: "inj_on ptype (set ps)" and d: "distinct ps"
    by (simp_all add: distinct_map)
  have "ptype ` {p \<in> set ps. pstatus p = DONE} \<inter> ptype ` {p \<in> set ps. pstatus p \<noteq> DONE} = {}"
  proof (rule ccontr)
    assume "\<not> ?thesis"
    then obtain p q where "p \<in> set ps" "q \<in> set ps" "pstatus p = DONE" "pstatus q \<noteq> DONE"
      "ptype p = ptype q" by auto
    with inj have "p = q" by (auto dest: inj_onD)
    with \<open>pstatus p = DONE\<close> \<open>pstatus q \<noteq> DONE\<close> show False by simp
  qed
  with assms show ?thesis
    by (simp add: sortProcesses_def distinct_map_filter)
qed

lemma find_distinct_type:
  assumes "distinct (map ptype ps)" and "q \<in> set ps"
  shows "find (\<lambda>p. ptype p = ptype q) ps = Some q"
  using assms
proof (induction ps)
  case Nil
  then show ?case by simp
next
  case (Cons p ps)
  then show ?case by (cases "p = q") (auto simp: image_iff)
qed


lemma updateProcess_unfold:
  assumes "execution step = Some ex" and "find (\<lambda>p. ptype p = type) (process ex) = Some cp"
  shows "updateProcess gm now m step type s params =
     (let p2 = (fst (statusSwitch now s (cp, status ex)))\<lparr> pstatus := s, message := gm type s \<rparr>;
          q = (case params of None \<Rightarrow> p2 | Some ps \<Rightarrow> assignParams ps p2)
      in propagateAndReturn m
           (step\<lparr> execution := Some \<lparr> status = snd (statusSwitch now s (cp, status ex)),
              process = sortProcesses ((process ex)[nat (findIndex (\<lambda>p. ptype p = type) (process ex)) := q]) \<rparr> \<rparr>)
           q)"
  using assms findIndex_find [OF assms(2)]
  by (simp add: updateProcess_def Let_def case_prod_beta)

lemma statusSwitch_fst:
  "fst (statusSwitch now s (p, es)) = (if s \<in> {CANCELLED, FAILED, DONE} then p\<lparr> doneAt := Some now \<rparr> else p)"
  by (cases s) simp_all

lemma statusSwitch_snd:
  "snd (statusSwitch now s (p, es)) = (if s \<in> {FAILED, PENDING, ACTION_REQUIRED} then s else es)"
  by (cases s) simp_all

text \<open>
  Claim C6. For every step with an execution that has a process of the given type,
  \<open>updateProcess\<close> gives the process the new status and its message; \<open>CANCELLED\<close>, \<open>DONE\<close>
  and \<open>FAILED\<close> stamp \<open>doneAt\<close> with the clock; \<open>FAILED\<close>, \<open>PENDING\<close> and \<open>ACTION_REQUIRED\<close>
  become the status of the execution, which any other status leaves alone; and each
  entry of \<open>params\<close> is written after these defaults, so that a \<open>doneAt\<close> of the caller
  replaces the stamp. The updated process is in the list of the step and is what the
  call returns.
\<close>

theorem updateProcess_effects:
  assumes "execution step = Some ex" and "find (\<lambda>p. ptype p = type) (process ex) = Some cp"
  shows "\<exists>q ex'. execution (stepAfter (updateProcess gm now m step type s params)) = Some ex'
     \<and> q \<in> set (process ex')
     \<and> (resultOf (updateProcess gm now m step type s params) = Inr q
        \<or> resultOf (updateProcess gm now m step type s params) = Inl CouldntFindStep \<and> shouldUpdate m
          \<and> findIndex (\<lambda>routeStep. step_id routeStep = step_id step) (route m) = - 1)
     \<and> status ex' = (if s \<in> {FAILED, PENDING, ACTION_REQUIRED} then s else status ex)
     \<and> ptype q = type \<and> pstatus q = s \<and> message q = gm type s \<and> startedAt q = startedAt cp
     \<and> doneAt q = (case Option.bind params set_doneAt of Some v \<Rightarrow> v
                   | None \<Rightarrow> if s \<in> {CANCELLED, FAILED, DONE} then Some now else doneAt cp)
     \<and> failedAt q = (case Option.bind params set_failedAt of Some v \<Rightarrow> v | None \<Rightarrow> failedAt cp)
     \<and> txHash q = (case Option.bind params set_txHash of Some v \<Rightarrow> v | None \<Rightarrow> txHash cp)
     \<and> txLink q = (case Option.bind params set_txLink of Some v \<Rightarrow> v | None \<Rightarrow> txLink cp)
     \<and> error q = (case Option.bind params set_error of Some v \<Rightarrow> v | None \<Rightarrow> error cp)
     \<and> substatus q = (case Option.bind params set_substatus of Some v \<Rightarrow> v | None \<Rightarrow> substatus cp)
     \<and> substatusMessage q =
         (case Option.bind params set_substatusMessage of Some v \<Rightarrow> v | None \<Rightarrow> substatusMessage cp)
     \<and> multisigTxHash q =
         (case Option.bind params set_multisigTxHash of Some v \<Rightarrow> v | None \<Rightarrow> multisigTxHash cp)"
proof -
  define p2 where "p2 = (fst (statusSwitch now s (cp, status ex)))\<lparr> pstatus := s, message := gm type s \<rparr>"
  define q where "q = (case params of None \<Rightarrow> p2 | Some ps \<Rightarrow> assignParams ps p2)"
  define i where "i = nat (findIndex (\<lambda>p. ptype p = type) (process ex))"
  define ex' where "ex' = \<lparr> status = snd (statusSwitch now s (cp, status ex)),
      process = sortProcesses ((process ex)[i := q]) \<rparr>"
  have eq: "updateProcess gm now m step type s params =
      propagateAndReturn m (step\<lparr> execution := Some ex' \<rparr>) q"
    unfolding ex'_def i_def q_def p2_def using updateProcess_unfold [OF assms, of gm now m s params]
    by (simp only: Let_def)
  from findIndex_find [OF assms(2)] have i: "i < length (process ex)" and cp: "process ex ! i = cp"
    by (simp_all add: i_def)
  from assms(2) have tcp: "ptype cp = type" by (auto simp: find_Some_iff)
  have mem: "q \<in> set (process ex')"
    using i by (simp add: ex'_def set_update_memI)
  have p2: "ptype p2 = type" "pstatus p2 = s" "message p2 = gm type s" "startedAt p2 = startedAt cp"
    "doneAt p2 = (if s \<in> {CANCELLED, FAILED, DONE} then Some now else doneAt cp)"
    "failedAt p2 = failedAt cp" "txHash p2 = txHash cp" "txLink p2 = txLink cp" "error p2 = error cp"
    "substatus p2 = substatus cp" "substatusMessage p2 = substatusMessage cp"
    "multisigTxHash p2 = multisigTxHash cp"
    using tcp by (simp_all add: p2_def statusSwitch_fst)
  have fields: "ptype q = type \<and> pstatus q = s \<and> message q = gm type s \<and> startedAt q = startedAt cp
     \<and> doneAt q = (case Option.bind params set_doneAt of Some v \<Rightarrow> v
                   | None \<Rightarrow> if s \<in> {CANCELLED, FAILED, DONE} then Some now else doneAt cp)
     \<and> failedAt q = (case Option.bind params set_failedAt of Some v \<Rightarrow> v | None \<Rightarrow> failedAt cp)
     \<and> txHash q = (case Option.bind params set_txHash of Some v \<Rightarrow> v | None \<Rightarrow> txHash cp)
     \<and> txLink q = (case Option.bind params set_txLink of Some v \<Rightarrow> v | None \<Rightarrow> txLink cp)
     \<and> error q = (case Option.bind params set_error of Some v \<Rightarrow> v | None \<Rightarrow> error cp)
     \<and> substatus q = (case Option.bind params set_substatus of Some v \<Rightarrow> v | None \<Rightarrow> substatus cp)
     \<and> substatusMessage q =
         (case Option.bind params set_substatusMessage of Some v \<Rightarrow> v | None \<Rightarrow> substatusMessage cp)
     \<and> multisigTxHash q =
         (case Option.bind params set_multisigTxHash of Some v \<Rightarrow> v | None \<Rightarrow> multisigTxHash cp)"
  proof (cases params)
    case None
    with p2 show ?thesis by (simp add: q_def)
  next
    case (Some ps)
    with p2 show ?thesis by (simp add: q_def assignParams_def split: option.splits)
  qed
  have st: "status ex' = (if s \<in> {FAILED, PENDING, ACTION_REQUIRED} then s else status ex)"
    by (simp add: ex'_def statusSwitch_snd)
  have res: "resultOf (updateProcess gm now m step type s params) = Inr q
        \<or> resultOf (updateProcess gm now m step type s params) = Inl CouldntFindStep \<and> shouldUpdate m
          \<and> findIndex (\<lambda>routeStep. step_id routeStep = step_id step) (route m) = - 1"
    unfolding eq by (simp add: propagate_result)
  have ex: "execution (stepAfter (updateProcess gm now m step type s params)) = Some ex'"
    unfolding eq by simp
  from ex mem res st fields show ?thesis by blast
qed


text \<open>
  Claim C7. After \<open>updateProcess\<close> the process list is the list from before the call, with
  the updated process at the position of the process it replaces, split in two: the
  processes with status \<open>DONE\<close> first and the others after them, each group in the order
  it had (a stable partition in two).
\<close>

theorem updateProcess_display_order:
  assumes "execution step = Some ex" and "find (\<lambda>p. ptype p = type) (process ex) = Some cp"
  shows "\<exists>ex' q i. execution (stepAfter (updateProcess gm now m step type s params)) = Some ex'
     \<and> i < length (process ex) \<and> process ex ! i = cp \<and> (\<forall>j < i. ptype (process ex ! j) \<noteq> type)
     \<and> ptype q = type \<and> pstatus q = s
     \<and> (\<exists>ds ns. process ex' = ds @ ns
           \<and> (\<forall>p \<in> set ds. pstatus p = DONE) \<and> (\<forall>p \<in> set ns. pstatus p \<noteq> DONE)
           \<and> ds = filter (\<lambda>p. pstatus p = DONE) ((process ex)[i := q])
           \<and> ns = filter (\<lambda>p. pstatus p \<noteq> DONE) ((process ex)[i := q]))"
proof -
  define p2 where "p2 = (fst (statusSwitch now s (cp, status ex)))\<lparr> pstatus := s, message := gm type s \<rparr>"
  define q where "q = (case params of None \<Rightarrow> p2 | Some ps \<Rightarrow> assignParams ps p2)"
  define i where "i = nat (findIndex (\<lambda>p. ptype p = type) (process ex))"
  define ex' where "ex' = \<lparr> status = snd (statusSwitch now s (cp, status ex)),
      process = sortProcesses ((process ex)[i := q]) \<rparr>"
  have eq: "updateProcess gm now m step type s params =
      propagateAndReturn m (step\<lparr> execution := Some ex' \<rparr>) q"
    unfolding ex'_def i_def q_def p2_def using updateProcess_unfold [OF assms, of gm now m s params]
    by (simp only: Let_def)
  from findIndex_find [OF assms(2)] have i: "i < length (process ex)" and cp: "process ex ! i = cp"
    and nonneg: "0 \<le> findIndex (\<lambda>p. ptype p = type) (process ex)"
    by (simp_all add: i_def)
  have first: "\<forall>j < i. ptype (process ex ! j) \<noteq> type"
  proof (intro allI impI)
    fix j assume "j < i"
    with nonneg have "int j < findIndex (\<lambda>p. ptype p = type) (process ex)"
      by (simp add: i_def)
    then show "ptype (process ex ! j) \<noteq> type" by (rule findIndex_first)
  qed
  from assms(2) have tcp: "ptype cp = type" by (auto simp: find_Some_iff)
  have q: "ptype q = type" "pstatus q = s"
    using tcp by (cases params; simp add: q_def p2_def assignParams_def statusSwitch_fst)+
  have ex: "execution (stepAfter (updateProcess gm now m step type s params)) = Some ex'"
    unfolding eq by simp
  have parts: "\<exists>ds ns. process ex' = ds @ ns
           \<and> (\<forall>p \<in> set ds. pstatus p = DONE) \<and> (\<forall>p \<in> set ns. pstatus p \<noteq> DONE)
           \<and> ds = filter (\<lambda>p. pstatus p = DONE) ((process ex)[i := q])
           \<and> ns = filter (\<lambda>p. pstatus p \<noteq> DONE) ((process ex)[i := q])"
    by (simp add: ex'_def sortProcesses_def)
  from ex i cp first q parts show ?thesis by blast
qed


lemma count_le_one_iff_distinct:
  "(\<forall>t. length (filter (\<lambda>x. f x = t) xs) \<le> 1) \<longleftrightarrow> distinct (map f xs)"
proof (induction xs)
  case Nil
  show ?case by simp
next
  case (Cons x xs)
  show ?case
  proof
    assume h: "\<forall>t. length (filter (\<lambda>y. f y = t) (x # xs)) \<le> 1"
    have "\<forall>t. length (filter (\<lambda>y. f y = t) xs) \<le> 1"
    proof
      fix t
      from h have "length (filter (\<lambda>y. f y = t) (x # xs)) \<le> 1" by blast
      then show "length (filter (\<lambda>y. f y = t) xs) \<le> 1" by (simp split: if_splits)
    qed
    with Cons.IH have d: "distinct (map f xs)" by simp
    from h have "length (filter (\<lambda>y. f y = f x) (x # xs)) \<le> 1" by blast
    then have "filter (\<lambda>y. f y = f x) xs = []" by simp
    then have "f x \<notin> f ` set xs" by (auto simp: filter_empty_conv)
    with d show "distinct (map f (x # xs))" by simp
  next
    assume d: "distinct (map f (x # xs))"
    then have dx: "distinct (map f xs)" and nx: "f x \<notin> f ` set xs" by simp_all
    from dx Cons.IH have ih: "\<forall>t. length (filter (\<lambda>y. f y = t) xs) \<le> 1" by simp
    from nx have "filter (\<lambda>y. f y = f x) xs = []" by (auto simp: filter_empty_conv image_iff)
    with ih show "\<forall>t. length (filter (\<lambda>y. f y = t) (x # xs)) \<le> 1" by simp
  qed
qed

lemma findOrCreateProcess_types:
  assumes "execution step = Some ex" and "distinct (map ptype (process ex))"
  shows "\<exists>ex'. execution (stepAfter (findOrCreateProcess gm now m step type so)) = Some ex'
           \<and> distinct (map ptype (process ex'))"
proof (cases "find (\<lambda>p. ptype p = type) (process ex)")
  case None
  then have "type \<notin> ptype ` set (process ex)" by (auto simp: find_None_iff)
  with assms None show ?thesis
    by (simp add: findOrCreateProcess_def Let_def)
next
  case (Some p)
  have "map ptype (updateFirst (\<lambda>p. ptype p = type) (\<lambda>p. p\<lparr> pstatus := s \<rparr>) (process ex))
      = map ptype (process ex)" for s
    by (rule map_updateFirst) simp
  with assms Some show ?thesis
    by (cases so) (simp_all add: findOrCreateProcess_def)
qed

lemma updateProcess_written:
  assumes "execution step = Some ex" and "find (\<lambda>p. ptype p = type) (process ex) = Some cp"
  shows "\<exists>q i es. i < length (process ex) \<and> process ex ! i = cp \<and> ptype q = type \<and> pstatus q = s
           \<and> updateProcess gm now m step type s params =
               propagateAndReturn m
                 (step\<lparr> execution := Some \<lparr> status = es, process = sortProcesses ((process ex)[i := q]) \<rparr> \<rparr>) q"
proof -
  define p2 where "p2 = (fst (statusSwitch now s (cp, status ex)))\<lparr> pstatus := s, message := gm type s \<rparr>"
  define q where "q = (case params of None \<Rightarrow> p2 | Some ps \<Rightarrow> assignParams ps p2)"
  define i where "i = nat (findIndex (\<lambda>p. ptype p = type) (process ex))"
  have eq: "updateProcess gm now m step type s params =
      propagateAndReturn m (step\<lparr> execution := Some \<lparr> status = snd (statusSwitch now s (cp, status ex)),
        process = sortProcesses ((process ex)[i := q]) \<rparr> \<rparr>) q"
    unfolding i_def q_def p2_def using updateProcess_unfold [OF assms, of gm now m s params]
    by (simp only: Let_def)
  from findIndex_find [OF assms(2)] have i: "i < length (process ex)" "process ex ! i = cp"
    by (simp_all add: i_def)
  from assms(2) have tcp: "ptype cp = type" by (auto simp: find_Some_iff)
  have q: "ptype q = type" "pstatus q = s"
    using tcp by (cases params; simp add: q_def p2_def assignParams_def statusSwitch_fst)+
  from i q eq show ?thesis by blast
qed

lemma updateProcess_types:
  assumes "execution step = Some ex" and "distinct (map ptype (process ex))"
  shows "\<exists>ex'. execution (stepAfter (updateProcess gm now m step type s params)) = Some ex'
           \<and> distinct (map ptype (process ex'))"
proof (cases "find (\<lambda>p. ptype p = type) (process ex)")
  case None
  with assms show ?thesis
    by (simp add: updateProcess_def)
next
  case (Some cp)
  from updateProcess_written [OF assms(1) Some, of s gm now m params]
  obtain q i es where i: "i < length (process ex)" "process ex ! i = cp" and q: "ptype q = type"
    and eq: "updateProcess gm now m step type s params =
       propagateAndReturn m
         (step\<lparr> execution := Some \<lparr> status = es, process = sortProcesses ((process ex)[i := q]) \<rparr> \<rparr>) q"
    by blast
  from Some have "ptype cp = type" by (auto simp: find_Some_iff)
  with i q have "map ptype ((process ex)[i := q]) = map ptype (process ex)"
    by (simp add: map_update list_update_same_conv)
  with assms(2) have "distinct (map ptype (sortProcesses ((process ex)[i := q])))"
    by (simp add: distinct_sortProcesses)
  then show ?thesis unfolding eq by simp
qed

lemma engineCall_types:
  assumes "execution step = Some ex" and "distinct (map ptype (process ex))"
  shows "\<exists>ex'. execution (snd (engineCall gm c (m, step))) = Some ex' \<and> distinct (map ptype (process ex'))"
proof (cases c)
  case (FindOrCreateProcess now type s)
  with findOrCreateProcess_types [OF assms] show ?thesis by simp
next
  case (UpdateProcess now type s params)
  with updateProcess_types [OF assms] show ?thesis by simp
qed

lemma engineCalls_types:
  assumes "execution step = Some ex" and "distinct (map ptype (process ex))"
  shows "\<exists>ex'. execution (snd (engineCalls gm cs (m, step))) = Some ex' \<and> distinct (map ptype (process ex'))"
  using assms
proof (induction cs arbitrary: m step ex)
  case Nil
  then show ?case by (simp add: engineCalls_def)
next
  case (Cons c cs)
  from engineCall_types [OF Cons.prems, of gm c m]
  obtain ex1 where ex1: "execution (snd (engineCall gm c (m, step))) = Some ex1"
    and d1: "distinct (map ptype (process ex1))" by blast
  from Cons.IH [OF ex1 d1, of "fst (engineCall gm c (m, step))"]
  show ?case by (simp add: engineCalls_def)
qed

text \<open>
  Claim C9. Starting from an execution with at most one process of each type (an empty
  list, for one), any sequence of \<open>findOrCreateProcess\<close> and \<open>updateProcess\<close> calls leaves
  at most one process of each type.
\<close>

theorem process_uniqueness:
  assumes "execution step = Some ex"
    and "\<forall>t. length (filter (\<lambda>p. ptype p = t) (process ex)) \<le> 1"
  shows "\<exists>ex'. execution (snd (engineCalls gm cs (m, step))) = Some ex'
           \<and> (\<forall>t. length (filter (\<lambda>p. ptype p = t) (process ex')) \<le> 1)"
proof -
  from assms(2) have "distinct (map ptype (process ex))"
    by (simp only: count_le_one_iff_distinct)
  from engineCalls_types [OF assms(1) this, of gm cs m] show ?thesis
    by (simp only: count_le_one_iff_distinct)
qed

text \<open>
  Claim C2, as amended. The engine has no guard on terminal statuses. On an execution
  with one process per type, \<open>findOrCreateProcess\<close> with a status and \<open>updateProcess\<close>
  leave the process of the type with the status they are given, whatever its status was,
  \<open>DONE\<close>, \<open>FAILED\<close> and \<open>CANCELLED\<close> included; so a terminal status stays only when the call
  passes that same status. \<open>findOrCreateProcess\<close> with no status leaves the step as it is.
\<close>

theorem status_overwritten:
  assumes "execution step = Some ex" and "find (\<lambda>p. ptype p = type) (process ex) = Some cp"
    and "distinct (map ptype (process ex))"
  shows "(\<exists>ex' q. execution (stepAfter (findOrCreateProcess gm now m step type (Some s))) = Some ex'
            \<and> find (\<lambda>p. ptype p = type) (process ex') = Some q \<and> pstatus q = s)
       \<and> (\<exists>ex' q. execution (stepAfter (updateProcess gm now m step type s params)) = Some ex'
            \<and> find (\<lambda>p. ptype p = type) (process ex') = Some q \<and> pstatus q = s)
       \<and> stepAfter (findOrCreateProcess gm now m step type None) = step"
proof (intro conjI)
  from assms(2) have tcp: "ptype cp = type" by (auto simp: find_Some_iff)
  show "\<exists>ex' q. execution (stepAfter (findOrCreateProcess gm now m step type (Some s))) = Some ex'
            \<and> find (\<lambda>p. ptype p = type) (process ex') = Some q \<and> pstatus q = s"
  proof (cases "pstatus cp = s")
    case True
    with assms show ?thesis by (simp add: findOrCreateProcess_def)
  next
    case False
    have "find (\<lambda>p. ptype p = type) (updateFirst (\<lambda>p. ptype p = type) (\<lambda>p. p\<lparr> pstatus := s \<rparr>) (process ex))
        = Some (cp\<lparr> pstatus := s \<rparr>)"
      using assms(2) tcp by (intro find_updateFirst) simp_all
    with False assms show ?thesis by (simp add: findOrCreateProcess_def)
  qed
  show "\<exists>ex' q. execution (stepAfter (updateProcess gm now m step type s params)) = Some ex'
            \<and> find (\<lambda>p. ptype p = type) (process ex') = Some q \<and> pstatus q = s"
  proof -
    from updateProcess_written [OF assms(1,2), of s gm now m params]
    obtain q i es where i: "i < length (process ex)" "process ex ! i = cp" and q: "ptype q = type" "pstatus q = s"
      and eq: "updateProcess gm now m step type s params =
         propagateAndReturn m
           (step\<lparr> execution := Some \<lparr> status = es, process = sortProcesses ((process ex)[i := q]) \<rparr> \<rparr>) q"
      by blast
    from i q tcp have "map ptype ((process ex)[i := q]) = map ptype (process ex)"
      by (simp add: map_update list_update_same_conv)
    with assms(3) have d: "distinct (map ptype (sortProcesses ((process ex)[i := q])))"
      by (simp add: distinct_sortProcesses)
    from i have "q \<in> set (sortProcesses ((process ex)[i := q]))"
      by (simp add: set_update_memI)
    from find_distinct_type [OF d this] q
    have "find (\<lambda>p. ptype p = type) (sortProcesses ((process ex)[i := q])) = Some q" by simp
    with q show ?thesis unfolding eq by simp
  qed
  show "stepAfter (findOrCreateProcess gm now m step type None) = step"
    using assms by (simp add: findOrCreateProcess_def)
qed



text \<open>
  Claim C1. \<open>removeProcess\<close> with a type that no process of the step has is claimed to
  leave the process list unchanged. In the source \<open>findIndex\<close> answers -1 and
  \<open>splice(-1, 1)\<close> removes the last process: here the list holds a token allowance and a
  swap, no process has the type \<open>TRANSACTION\<close>, and the call removes the swap.
\<close>

theorem removeProcess_missing_type_removes_last:
  "find (\<lambda>p. ptype p = TRANSACTION) [bareProcess TOKEN_ALLOWANCE DONE, bareProcess SWAP PENDING] = None
   \<and> removeProcess quietManager
         (stepWith PENDING [bareProcess TOKEN_ALLOWANCE DONE, bareProcess SWAP PENDING]) TRANSACTION
       = (quietManager, stepWith PENDING [bareProcess TOKEN_ALLOWANCE DONE], Inr ())"
  by (simp add: removeProcess_def propagateAndReturn_def updateStepInRoute_def splice_array_def
      bareProcess_def quietManager_def stepWith_def)

theorem initExecutionObject_resume_witness:
  "execution (stepWith FAILED [bareProcess SWAP FAILED]) = Some \<lparr> status = FAILED, process = [bareProcess SWAP FAILED] \<rparr>
   \<and> status \<lparr> status = FAILED, process = [bareProcess SWAP FAILED] \<rparr> = FAILED
   \<and> (\<exists>e'. execution (stepAfter (initExecutionObject quietManager (stepWith FAILED [bareProcess SWAP FAILED]))) = Some e'
           \<and> status e' = PENDING \<and> process e' = [bareProcess SWAP FAILED]
           \<and> resultOf (initExecutionObject quietManager (stepWith FAILED [bareProcess SWAP FAILED])) = Inr e')"
proof -
  have h1: "execution (stepWith FAILED [bareProcess SWAP FAILED])
      = Some \<lparr> status = FAILED, process = [bareProcess SWAP FAILED] \<rparr>"
    by (simp add: stepWith_def)
  have h2: "status \<lparr> status = FAILED, process = [bareProcess SWAP FAILED] \<rparr> = FAILED"
    by simp
  have q: "\<not> shouldUpdate quietManager"
    by (simp add: quietManager_def)
  from initExecutionObject_resume [OF h1 h2, of quietManager] q h1 h2 show ?thesis
    by auto
qed

theorem updateProcess_effects_witness:
  "execution (stepWith PENDING [bareProcess SWAP STARTED]) = Some \<lparr> status = PENDING, process = [bareProcess SWAP STARTED] \<rparr>
   \<and> find (\<lambda>p. ptype p = SWAP) (process \<lparr> status = PENDING, process = [bareProcess SWAP STARTED] \<rparr>)
       = Some (bareProcess SWAP STARTED)
   \<and> (\<exists>q ex'. execution (stepAfter (updateProcess noMessage 42 quietManager
                   (stepWith PENDING [bareProcess SWAP STARTED]) SWAP FAILED None)) = Some ex'
         \<and> resultOf (updateProcess noMessage 42 quietManager
                   (stepWith PENDING [bareProcess SWAP STARTED]) SWAP FAILED None) = Inr q
         \<and> status ex' = FAILED \<and> pstatus q = FAILED \<and> doneAt q = Some 42)"
proof -
  have h1: "execution (stepWith PENDING [bareProcess SWAP STARTED])
      = Some \<lparr> status = PENDING, process = [bareProcess SWAP STARTED] \<rparr>"
    by (simp add: stepWith_def)
  have h2: "find (\<lambda>p. ptype p = SWAP) (process \<lparr> status = PENDING, process = [bareProcess SWAP STARTED] \<rparr>)
      = Some (bareProcess SWAP STARTED)"
    by (simp add: bareProcess_def)
  have q: "\<not> shouldUpdate quietManager"
    by (simp add: quietManager_def)
  from updateProcess_effects [OF h1 h2, of noMessage 42 quietManager FAILED None] q
  obtain q ex' where "execution (stepAfter (updateProcess noMessage 42 quietManager
                   (stepWith PENDING [bareProcess SWAP STARTED]) SWAP FAILED None)) = Some ex'"
     "resultOf (updateProcess noMessage 42 quietManager
                   (stepWith PENDING [bareProcess SWAP STARTED]) SWAP FAILED None) = Inr q"
     "status ex' = FAILED" "pstatus q = FAILED" "doneAt q = Some 42"
    by auto
  with h1 h2 show ?thesis by blast
qed

theorem updateProcess_display_order_witness:
  "execution (stepWith PENDING [bareProcess TOKEN_ALLOWANCE STARTED, bareProcess SWAP STARTED])
     = Some \<lparr> status = PENDING, process = [bareProcess TOKEN_ALLOWANCE STARTED, bareProcess SWAP STARTED] \<rparr>
   \<and> find (\<lambda>p. ptype p = SWAP)
         (process \<lparr> status = PENDING, process = [bareProcess TOKEN_ALLOWANCE STARTED, bareProcess SWAP STARTED] \<rparr>)
       = Some (bareProcess SWAP STARTED)
   \<and> (\<exists>ex' q. execution (stepAfter (updateProcess noMessage 42 quietManager
          (stepWith PENDING [bareProcess TOKEN_ALLOWANCE STARTED, bareProcess SWAP STARTED]) SWAP DONE None)) = Some ex'
        \<and> pstatus q = DONE \<and> ptype q = SWAP
        \<and> process ex' = [q, bareProcess TOKEN_ALLOWANCE STARTED])"
proof -
  let ?ps = "[bareProcess TOKEN_ALLOWANCE STARTED, bareProcess SWAP STARTED]"
  have h1: "execution (stepWith PENDING ?ps) = Some \<lparr> status = PENDING, process = ?ps \<rparr>"
    by (simp add: stepWith_def)
  have h2: "find (\<lambda>p. ptype p = SWAP) (process \<lparr> status = PENDING, process = ?ps \<rparr>)
      = Some (bareProcess SWAP STARTED)"
    by (simp add: bareProcess_def)
  from updateProcess_display_order [OF h1 h2, of noMessage 42 quietManager DONE None]
  obtain ex' q i where ex': "execution (stepAfter (updateProcess noMessage 42 quietManager
          (stepWith PENDING ?ps) SWAP DONE None)) = Some ex'"
    and i: "i < length ?ps" "?ps ! i = bareProcess SWAP STARTED"
    and q: "ptype q = SWAP" "pstatus q = DONE"
    and pr: "process ex' = filter (\<lambda>p. pstatus p = DONE) (?ps[i := q]) @ filter (\<lambda>p. pstatus p \<noteq> DONE) (?ps[i := q])"
    by auto
  from i have "i = 1"
    by (cases i) (simp_all add: bareProcess_def)
  with pr q have "process ex' = [q, bareProcess TOKEN_ALLOWANCE STARTED]"
    by (simp add: bareProcess_def)
  with ex' q h1 h2 show ?thesis by blast
qed

theorem process_uniqueness_witness:
  "execution (stepWith PENDING []) = Some \<lparr> status = PENDING, process = [] \<rparr>
   \<and> (\<forall>t. length (filter (\<lambda>p. ptype p = t) (process \<lparr> status = PENDING, process = [] \<rparr>)) \<le> 1)
   \<and> (\<exists>ex'. execution (snd (engineCalls noMessage
          [FindOrCreateProcess 1 SWAP None, FindOrCreateProcess 2 SWAP (Some PENDING),
           UpdateProcess 3 SWAP DONE None, FindOrCreateProcess 4 RECEIVING_CHAIN (Some PENDING),
           FindOrCreateProcess 5 SWAP None]
          (quietManager, stepWith PENDING []))) = Some ex'
        \<and> (\<forall>t. length (filter (\<lambda>p. ptype p = t) (process ex')) \<le> 1))"
proof -
  have h1: "execution (stepWith PENDING []) = Some \<lparr> status = PENDING, process = [] \<rparr>"
    by (simp add: stepWith_def)
  have h2: "\<forall>t. length (filter (\<lambda>p. ptype p = t) (process \<lparr> status = PENDING, process = [] \<rparr>)) \<le> 1"
    by simp
  from process_uniqueness [OF h1 h2] h1 h2 show ?thesis by blast
qed

text \<open>
  Claim C2 as stated fails: a process that is \<open>DONE\<close> becomes \<open>STARTED\<close> by \<open>updateProcess\<close>
  and \<open>PENDING\<close> by \<open>findOrCreateProcess\<close>.
\<close>

theorem done_process_restarted:
  "pstatus (bareProcess SWAP DONE) = DONE
   \<and> stepAfter (updateProcess noMessage 7 quietManager (stepWith DONE [bareProcess SWAP DONE]) SWAP STARTED None)
       = stepWith DONE [bareProcess SWAP STARTED]
   \<and> stepAfter (findOrCreateProcess noMessage 7 quietManager (stepWith DONE [bareProcess SWAP DONE]) SWAP (Some PENDING))
       = stepWith DONE [bareProcess SWAP PENDING]"
  by (simp add: updateProcess_def findOrCreateProcess_def propagateAndReturn_def updateStepInRoute_def
      sortProcesses_def stepAfter_def bareProcess_def quietManager_def stepWith_def noMessage_def Let_def)

theorem status_overwritten_witness:
  "execution (stepWith DONE [bareProcess SWAP DONE]) = Some \<lparr> status = DONE, process = [bareProcess SWAP DONE] \<rparr>
   \<and> find (\<lambda>p. ptype p = SWAP) (process \<lparr> status = DONE, process = [bareProcess SWAP DONE] \<rparr>)
       = Some (bareProcess SWAP DONE)
   \<and> distinct (map ptype (process \<lparr> status = DONE, process = [bareProcess SWAP DONE] \<rparr>))
   \<and> (\<exists>ex' q. execution (stepAfter (updateProcess noMessage 7 quietManager
          (stepWith DONE [bareProcess SWAP DONE]) SWAP FAILED None)) = Some ex'
        \<and> find (\<lambda>p. ptype p = SWAP) (process ex') = Some q \<and> pstatus q = FAILED)"
proof -
  have h1: "execution (stepWith DONE [bareProcess SWAP DONE])
      = Some \<lparr> status = DONE, process = [bareProcess SWAP DONE] \<rparr>"
    by (simp add: stepWith_def)
  have h2: "find (\<lambda>p. ptype p = SWAP) (process \<lparr> status = DONE, process = [bareProcess SWAP DONE] \<rparr>)
      = Some (bareProcess SWAP DONE)"
    by (simp add: bareProcess_def)
  have h3: "distinct (map ptype (process \<lparr> status = DONE, process = [bareProcess SWAP DONE] \<rparr>))"
    by simp
  from status_overwritten [OF h1 h2 h3, of noMessage 7 quietManager FAILED None] h1 h2 h3
  show ?thesis by blast
qed

section \<open>Properties of the permit message builder\<close>

lemma forEach_fail:
  "\<exists>x \<in> set ps. MaxSignatureTransferAmount c < amount x \<Longrightarrow>
     forEach_validateTokenPermissions c ps = Inl ''AMOUNT_OUT_OF_RANGE''"
  by (induction ps) (auto simp: validateTokenPermissions_def invariant_def)

lemma forEach_ok:
  "\<forall>x \<in> set ps. amount x \<le> MaxSignatureTransferAmount c \<Longrightarrow>
     forEach_validateTokenPermissions c ps = Inr ()"
  by (induction ps) (auto simp: validateTokenPermissions_def invariant_def)

lemma getPermitData_deadline:
  "MaxSigDeadline c < permitDeadline P \<Longrightarrow> getPermitData c P a n w = Inl ''SIG_DEADLINE_OUT_OF_RANGE''"
  by (cases P) (simp_all add: getPermitTransferData_def getPermitBatchTransferData_def invariant_def)

lemma getPermitData_nonce:
  "permitDeadline P \<le> MaxSigDeadline c \<Longrightarrow> MaxUnorderedNonce c < permitNonce P \<Longrightarrow>
     getPermitData c P a n w = Inl ''NONCE_OUT_OF_RANGE''"
  by (cases P) (simp_all add: getPermitTransferData_def getPermitBatchTransferData_def invariant_def)

lemma getPermitData_amount:
  assumes "permitDeadline P \<le> MaxSigDeadline c" and "permitNonce P \<le> MaxUnorderedNonce c"
    and "\<exists>x \<in> set (permitAmounts P). MaxSignatureTransferAmount c < x"
  shows "getPermitData c P a n w = Inl ''AMOUNT_OUT_OF_RANGE''"
proof (cases P)
  case (Single p)
  with assms show ?thesis
    by (simp add: getPermitTransferData_def validateTokenPermissions_def invariant_def)
next
  case (Batch p)
  with assms(3) have "\<exists>x \<in> set (permitted p). MaxSignatureTransferAmount c < amount x" by simp
  then have "forEach_validateTokenPermissions c (permitted p) = Inl ''AMOUNT_OUT_OF_RANGE''"
    by (rule forEach_fail)
  with Batch assms(1,2) show ?thesis
    by (simp add: getPermitBatchTransferData_def invariant_def)
qed

lemma getPermitData_in_range:
  assumes "permitDeadline P \<le> MaxSigDeadline c" and "permitNonce P \<le> MaxUnorderedNonce c"
    and "\<forall>x \<in> set (permitAmounts P). x \<le> MaxSignatureTransferAmount c"
  shows "\<exists>d. getPermitData c P a n w = Inr (withWitness w P, d)
           \<and> dataValues d = withWitness w P
           \<and> dataDomain d = permit2Domain c a n
           \<and> dataTypes d
                (if isPermitTransferFrom P
                 then (if w = None then ''PermitTransferFrom'' else ''PermitWitnessTransferFrom'')
                 else (if w = None then ''PermitBatchTransferFrom'' else ''PermitBatchWitnessTransferFrom''))
               \<noteq> None"
proof (cases P)
  case (Single p)
  with assms show ?thesis
    by (cases w)
      (simp_all add: getPermitTransferData_def validateTokenPermissions_def invariant_def
        PERMIT_TRANSFER_FROM_TYPES_def Let_def)
next
  case (Batch p)
  with assms(3) have "\<forall>x \<in> set (permitted p). amount x \<le> MaxSignatureTransferAmount c" by simp
  then have "forEach_validateTokenPermissions c (permitted p) = Inr ()"
    by (rule forEach_ok)
  with Batch assms(1,2) show ?thesis
    by (cases w)
      (simp_all add: getPermitBatchTransferData_def invariant_def
        PERMIT_BATCH_TRANSFER_FROM_TYPES_def Let_def)
qed

lemma hash_getPermitData:
  "hash H c P a n w =
     (case getPermitData c P a n w of
        Inl e \<Rightarrow> Inl e
      | Inr (P', d) \<Rightarrow>
          Inr (P', H (dataDomain d) (dataTypes d)
                 (if isPermitTransferFrom P
                  then (if w = None then ''PermitTransferFrom'' else ''PermitWitnessTransferFrom'')
                  else (if w = None then ''PermitBatchTransferFrom'' else ''PermitBatchWitnessTransferFrom''))
                 (dataValues d)))"
  by (cases P) (auto split: sum.splits)

text \<open>
  Claim C8. A permit whose deadline exceeds \<open>MaxSigDeadline\<close>, whose nonce exceeds
  \<open>MaxUnorderedNonce\<close>, or one of whose amounts exceeds \<open>MaxSignatureTransferAmount\<close> makes
  \<open>getPermitData\<close> (that is \<open>getPermitTransferData\<close> for one token and
  \<open>getPermitBatchTransferData\<close> for several) and \<open>hash\<close> fail with the error named after
  the first check that fails, in the order deadline, nonce, amounts, and produce no data.
  With all values in range both succeed, the types define the primary type, and \<open>hash\<close>
  passes to \<open>hashTypedData\<close> the primary type chosen by the kind of permit and the
  presence of a witness.
\<close>

theorem permit_range_validation:
  "(MaxSigDeadline c < permitDeadline P \<longrightarrow>
      getPermitData c P a n w = Inl ''SIG_DEADLINE_OUT_OF_RANGE''
      \<and> hash H c P a n w = Inl ''SIG_DEADLINE_OUT_OF_RANGE'')
   \<and> (permitDeadline P \<le> MaxSigDeadline c \<and> MaxUnorderedNonce c < permitNonce P \<longrightarrow>
      getPermitData c P a n w = Inl ''NONCE_OUT_OF_RANGE''
      \<and> hash H c P a n w = Inl ''NONCE_OUT_OF_RANGE'')
   \<and> (permitDeadline P \<le> MaxSigDeadline c \<and> permitNonce P \<le> MaxUnorderedNonce c
        \<and> (\<exists>x \<in> set (permitAmounts P). MaxSignatureTransferAmount c < x) \<longrightarrow>
      getPermitData c P a n w = Inl ''AMOUNT_OUT_OF_RANGE''
      \<and> hash H c P a n w = Inl ''AMOUNT_OUT_OF_RANGE'')
   \<and> (permitDeadline P \<le> MaxSigDeadline c \<and> permitNonce P \<le> MaxUnorderedNonce c
        \<and> (\<forall>x \<in> set (permitAmounts P). x \<le> MaxSignatureTransferAmount c) \<longrightarrow>
      (\<exists>P' d. getPermitData c P a n w = Inr (P', d)
         \<and> dataTypes d
              (if isPermitTransferFrom P
               then (if w = None then ''PermitTransferFrom'' else ''PermitWitnessTransferFrom'')
               else (if w = None then ''PermitBatchTransferFrom'' else ''PermitBatchWitnessTransferFrom''))
             \<noteq> None
         \<and> hash H c P a n w =
             Inr (P', H (dataDomain d) (dataTypes d)
                    (if isPermitTransferFrom P
                     then (if w = None then ''PermitTransferFrom'' else ''PermitWitnessTransferFrom'')
                     else (if w = None then ''PermitBatchTransferFrom'' else ''PermitBatchWitnessTransferFrom''))
                    (dataValues d))))"
proof (intro conjI impI)
  assume "MaxSigDeadline c < permitDeadline P"
  then have g: "getPermitData c P a n w = Inl ''SIG_DEADLINE_OUT_OF_RANGE''"
    by (rule getPermitData_deadline)
  then show "getPermitData c P a n w = Inl ''SIG_DEADLINE_OUT_OF_RANGE''" .
  from g show "hash H c P a n w = Inl ''SIG_DEADLINE_OUT_OF_RANGE''"
    by (simp add: hash_getPermitData)
next
  assume "permitDeadline P \<le> MaxSigDeadline c \<and> MaxUnorderedNonce c < permitNonce P"
  then have g: "getPermitData c P a n w = Inl ''NONCE_OUT_OF_RANGE''"
    by (simp add: getPermitData_nonce)
  then show "getPermitData c P a n w = Inl ''NONCE_OUT_OF_RANGE''" .
  from g show "hash H c P a n w = Inl ''NONCE_OUT_OF_RANGE''"
    by (simp add: hash_getPermitData)
next
  assume h: "permitDeadline P \<le> MaxSigDeadline c \<and> permitNonce P \<le> MaxUnorderedNonce c
        \<and> (\<exists>x \<in> set (permitAmounts P). MaxSignatureTransferAmount c < x)"
  then have g: "getPermitData c P a n w = Inl ''AMOUNT_OUT_OF_RANGE''"
    by (intro getPermitData_amount) simp_all
  then show "getPermitData c P a n w = Inl ''AMOUNT_OUT_OF_RANGE''" .
  from g show "hash H c P a n w = Inl ''AMOUNT_OUT_OF_RANGE''"
    by (simp add: hash_getPermitData)
next
  assume h: "permitDeadline P \<le> MaxSigDeadline c \<and> permitNonce P \<le> MaxUnorderedNonce c
        \<and> (\<forall>x \<in> set (permitAmounts P). x \<le> MaxSignatureTransferAmount c)"
  then have "\<exists>d. getPermitData c P a n w = Inr (withWitness w P, d)
           \<and> dataValues d = withWitness w P
           \<and> dataDomain d = permit2Domain c a n
           \<and> dataTypes d
                (if isPermitTransferFrom P
                 then (if w = None then ''PermitTransferFrom'' else ''PermitWitnessTransferFrom'')
                 else (if w = None then ''PermitBatchTransferFrom'' else ''PermitBatchWitnessTransferFrom''))
               \<noteq> None"
    by (intro getPermitData_in_range) simp_all
  then obtain d where d: "getPermitData c P a n w = Inr (withWitness w P, d)"
    and t: "dataTypes d
                (if isPermitTransferFrom P
                 then (if w = None then ''PermitTransferFrom'' else ''PermitWitnessTransferFrom'')
                 else (if w = None then ''PermitBatchTransferFrom'' else ''PermitBatchWitnessTransferFrom''))
               \<noteq> None"
    by blast
  from d have "hash H c P a n w =
             Inr (withWitness w P, H (dataDomain d) (dataTypes d)
                    (if isPermitTransferFrom P
                     then (if w = None then ''PermitTransferFrom'' else ''PermitWitnessTransferFrom'')
                     else (if w = None then ''PermitBatchTransferFrom'' else ''PermitBatchWitnessTransferFrom''))
                    (dataValues d))"
    by (simp add: hash_getPermitData)
  with d t show "\<exists>P' d. getPermitData c P a n w = Inr (P', d)
         \<and> dataTypes d
              (if isPermitTransferFrom P
               then (if w = None then ''PermitTransferFrom'' else ''PermitWitnessTransferFrom'')
               else (if w = None then ''PermitBatchTransferFrom'' else ''PermitBatchWitnessTransferFrom''))
             \<noteq> None
         \<and> hash H c P a n w =
             Inr (P', H (dataDomain d) (dataTypes d)
                    (if isPermitTransferFrom P
                     then (if w = None then ''PermitTransferFrom'' else ''PermitWitnessTransferFrom'')
                     else (if w = None then ''PermitBatchTransferFrom'' else ''PermitBatchWitnessTransferFrom''))
                    (dataValues d))"
    by blast
qed

theorem permit_range_validation_witness:
  "MaxSigDeadline smallPermit2 < permitDeadline (Single (tokenPermit 5 6 2000))
   \<and> getPermitData smallPermit2 (Single (tokenPermit 5 6 2000)) ''0xPermit2'' 1 (Some orderWitness)
       = Inl ''SIG_DEADLINE_OUT_OF_RANGE''
   \<and> MaxUnorderedNonce smallPermit2 < permitNonce (Single (tokenPermit 5 2000 7))
   \<and> getPermitData smallPermit2 (Single (tokenPermit 5 2000 7)) ''0xPermit2'' 1 None = Inl ''NONCE_OUT_OF_RANGE''
   \<and> MaxSignatureTransferAmount smallPermit2 < 2000
   \<and> getPermitData smallPermit2 (Single (tokenPermit 2000 6 7)) ''0xPermit2'' 1 None = Inl ''AMOUNT_OUT_OF_RANGE''
   \<and> (\<exists>P'. hash (\<lambda>dom tys primaryType msg. primaryType) smallPermit2 (Single (tokenPermit 5 6 7)) ''0xPermit2'' 1
                (Some orderWitness) = Inr (P', ''PermitWitnessTransferFrom''))"
proof -
  let ?H = "\<lambda>(dom :: Address \<times> int) (tys :: TypedData) (primaryType :: string) (msg :: nat AnyPermit). primaryType"
  have v1: "MaxSigDeadline smallPermit2 < permitDeadline (Single (tokenPermit 5 6 2000))"
    by (simp add: smallPermit2_def tokenPermit_def)
  have v2: "permitDeadline (Single (tokenPermit 5 2000 7)) \<le> MaxSigDeadline smallPermit2
      \<and> MaxUnorderedNonce smallPermit2 < permitNonce (Single (tokenPermit 5 2000 7))"
    by (simp add: smallPermit2_def tokenPermit_def)
  have v3: "permitDeadline (Single (tokenPermit 2000 6 7)) \<le> MaxSigDeadline smallPermit2
      \<and> permitNonce (Single (tokenPermit 2000 6 7)) \<le> MaxUnorderedNonce smallPermit2
      \<and> (\<exists>x \<in> set (permitAmounts (Single (tokenPermit 2000 6 7))). MaxSignatureTransferAmount smallPermit2 < x)"
    by (simp add: smallPermit2_def tokenPermit_def)
  have v4: "permitDeadline (Single (tokenPermit 5 6 7)) \<le> MaxSigDeadline smallPermit2
      \<and> permitNonce (Single (tokenPermit 5 6 7)) \<le> MaxUnorderedNonce smallPermit2
      \<and> (\<forall>x \<in> set (permitAmounts (Single (tokenPermit 5 6 7))). x \<le> MaxSignatureTransferAmount smallPermit2)"
    by (simp add: smallPermit2_def tokenPermit_def)
  have s: "isPermitTransferFrom (Single (tokenPermit 5 6 7))"
    by (simp add: tokenPermit_def)
  have m: "MaxSignatureTransferAmount smallPermit2 < 2000"
    by (simp add: smallPermit2_def)
  from permit_range_validation [of smallPermit2 "Single (tokenPermit 5 6 2000)" "''0xPermit2''" 1 "Some orderWitness" ?H] v1
  have r1: "getPermitData smallPermit2 (Single (tokenPermit 5 6 2000)) ''0xPermit2'' 1 (Some orderWitness)
       = Inl ''SIG_DEADLINE_OUT_OF_RANGE''" by blast
  from permit_range_validation [of smallPermit2 "Single (tokenPermit 5 2000 7)" "''0xPermit2''" 1 None ?H] v2
  have r2: "getPermitData smallPermit2 (Single (tokenPermit 5 2000 7)) ''0xPermit2'' 1 None = Inl ''NONCE_OUT_OF_RANGE''"
    by blast
  from permit_range_validation [of smallPermit2 "Single (tokenPermit 2000 6 7)" "''0xPermit2''" 1 None ?H] v3
  have r3: "getPermitData smallPermit2 (Single (tokenPermit 2000 6 7)) ''0xPermit2'' 1 None = Inl ''AMOUNT_OUT_OF_RANGE''"
    by blast
  note permit_range_validation [of smallPermit2 "Single (tokenPermit 5 6 7)" "''0xPermit2''" 1 "Some orderWitness" ?H,
    THEN conjunct2, THEN conjunct2, THEN conjunct2, THEN mp, OF v4]
  then obtain P' and d :: "(Address \<times> int, nat) AnyPermitData"
    where "hash ?H smallPermit2 (Single (tokenPermit 5 6 7)) ''0xPermit2'' 1 (Some orderWitness) =
      Inr (P', ?H (dataDomain d) (dataTypes d)
                    (if isPermitTransferFrom (Single (tokenPermit 5 6 7))
                     then (if Some orderWitness = None then ''PermitTransferFrom'' else ''PermitWitnessTransferFrom'')
                     else (if Some orderWitness = None then ''PermitBatchTransferFrom''
                           else ''PermitBatchWitnessTransferFrom''))
                    (dataValues d))"
    by (elim exE conjE)
  then have "hash ?H smallPermit2 (Single (tokenPermit 5 6 7)) ''0xPermit2'' 1 (Some orderWitness) =
      Inr (P', ''PermitWitnessTransferFrom'')"
    by simp
  then have r4: "\<exists>P'. hash ?H smallPermit2 (Single (tokenPermit 5 6 7)) ''0xPermit2'' 1
                (Some orderWitness) = Inr (P', ''PermitWitnessTransferFrom'')"
    by blast
  from v1 v2 r1 r2 r3 r4 m show ?thesis by blast
qed


text \<open>
  Claim C4, as amended. The builders perform no input or output: each is a function of
  its arguments. Called without a witness they leave the permit of the caller as it is,
  and \<open>values\<close> is that permit. Called with a witness they write one property on the
  permit object of the caller, \<open>witness\<close>, and leave \<open>permitted\<close>, \<open>spender\<close>, \<open>nonce\<close> and
  \<open>deadline\<close> as they are; \<open>values\<close> is that same object. This holds for
  \<open>getPermitTransferData\<close>, \<open>getPermitBatchTransferData\<close>, \<open>getPermitData\<close> and \<open>hash\<close>.
\<close>

theorem permit_builders_frame:
  "(getPermitTransferData (c :: 'd Permit2) p a n None = Inr (p', d) \<longrightarrow> p' = p \<and> permit_values d = p)
   \<and> (getPermitTransferData c p a n (Some (w :: 'w Witness)) = Inr (p', d) \<longrightarrow>
        p' = p\<lparr> witness_property := Some (witness w) \<rparr> \<and> permit_values d = p')
   \<and> (getPermitBatchTransferData c pb a n None = Inr (pb', db) \<longrightarrow> pb' = pb \<and> permit_values db = pb)
   \<and> (getPermitBatchTransferData c pb a n (Some w) = Inr (pb', db) \<longrightarrow>
        pb' = pb\<lparr> witness_property := Some (witness w) \<rparr> \<and> permit_values db = pb')
   \<and> (getPermitData c (P :: 'w AnyPermit) a n wo = Inr (P', D) \<longrightarrow> P' = withWitness wo P \<and> dataValues D = P')
   \<and> (hash H c P a n wo = Inr (P', h) \<longrightarrow> P' = withWitness wo P)
   \<and> withWitness None P = P"
proof -
  have single: "getPermitTransferData c p a n wo = Inr (p', d) \<Longrightarrow>
      p' = (case wo of None \<Rightarrow> p | Some w \<Rightarrow> p\<lparr> witness_property := Some (witness w) \<rparr>)
      \<and> permit_values d = p'" for p p' d and wo :: "'w Witness option"
    by (auto simp: getPermitTransferData_def Let_def split: sum.splits option.splits)
  have batch: "getPermitBatchTransferData c pb a n wo = Inr (pb', db) \<Longrightarrow>
      pb' = (case wo of None \<Rightarrow> pb | Some w \<Rightarrow> pb\<lparr> witness_property := Some (witness w) \<rparr>)
      \<and> permit_values db = pb'" for pb pb' db and wo :: "'w Witness option"
    by (auto simp: getPermitBatchTransferData_def Let_def split: sum.splits option.splits)
  have data: "getPermitData c P a n wo = Inr (P', D) \<Longrightarrow> P' = withWitness wo P \<and> dataValues D = P'"
    for P' D
  proof (cases P)
    case (Single q)
    assume "getPermitData c P a n wo = Inr (P', D)"
    with Single obtain q' e where "getPermitTransferData c q a n wo = Inr (q', e)"
      "P' = Single q'" "D = SingleData e"
      by (auto split: sum.splits)
    with single [of q wo q' e] Single show ?thesis
      by (cases wo) simp_all
  next
    case (Batch q)
    assume "getPermitData c P a n wo = Inr (P', D)"
    with Batch obtain q' e where "getPermitBatchTransferData c q a n wo = Inr (q', e)"
      "P' = Batch q'" "D = BatchData e"
      by (auto split: sum.splits)
    with batch [of q wo q' e] Batch show ?thesis
      by (cases wo) simp_all
  qed
  have hashed: "hash H c P a n wo = Inr (P', h) \<Longrightarrow> P' = withWitness wo P"
  proof -
    assume "hash H c P a n wo = Inr (P', h)"
    then obtain D where "getPermitData c P a n wo = Inr (P', D)"
      by (auto simp: hash_getPermitData split: sum.splits)
    with data show ?thesis by blast
  qed
  from single [of p None p' d] single [of p "Some w" p' d] batch [of pb None pb' db]
    batch [of pb "Some w" pb' db] data hashed
  show ?thesis by simp
qed

theorem permit_builders_frame_witness:
  "getPermitTransferData smallPermit2 (tokenPermit 5 6 7) ''0xPermit2'' 1 None
     = Inr (tokenPermit 5 6 7,
            \<lparr> domain = (''0xPermit2'', 1), types = PERMIT_TRANSFER_FROM_TYPES,
              permit_values = tokenPermit 5 6 7 \<rparr>)
   \<and> permit_values \<lparr> domain = (''0xPermit2'', 1 :: int), types = PERMIT_TRANSFER_FROM_TYPES,
                     permit_values = tokenPermit 5 6 7 \<rparr> = tokenPermit 5 6 7"
proof -
  have h: "getPermitTransferData smallPermit2 (tokenPermit 5 6 7) ''0xPermit2'' 1 None
     = Inr (tokenPermit 5 6 7,
            \<lparr> domain = (''0xPermit2'', 1), types = PERMIT_TRANSFER_FROM_TYPES,
              permit_values = tokenPermit 5 6 7 \<rparr>)"
    by (simp add: getPermitTransferData_def validateTokenPermissions_def invariant_def
        smallPermit2_def tokenPermit_def Let_def)
  note permit_builders_frame [of smallPermit2 "tokenPermit 5 6 7" "''0xPermit2''" 1 "tokenPermit 5 6 7"
    "\<lparr> domain = (''0xPermit2'', 1), types = PERMIT_TRANSFER_FROM_TYPES, permit_values = tokenPermit 5 6 7 \<rparr>",
    THEN conjunct1, THEN mp, OF h]
  then have "permit_values \<lparr> domain = (''0xPermit2'', 1 :: int), types = PERMIT_TRANSFER_FROM_TYPES,
                     permit_values = tokenPermit 5 6 7 \<rparr> = tokenPermit 5 6 7"
    by (rule conjunct2)
  with h show ?thesis by (rule conjI)
qed

text \<open>
  Claim C4 as stated fails with a witness: the permit of the caller has no property
  \<open>witness\<close> before the call and has one after it.
\<close>

theorem getPermitTransferData_writes_witness:
  "witness_property (tokenPermit 5 6 7) = None
   \<and> map_sum id fst (getPermitTransferData smallPermit2 (tokenPermit 5 6 7) ''0xPermit2'' 1 (Some orderWitness))
       = Inr ((tokenPermit 5 6 7)\<lparr> witness_property := Some 7 \<rparr>)
   \<and> (tokenPermit 5 6 7)\<lparr> witness_property := Some 7 \<rparr> \<noteq> tokenPermit 5 6 7"
  by (simp add: getPermitTransferData_def validateTokenPermissions_def invariant_def
      smallPermit2_def tokenPermit_def orderWitness_def Let_def)

section \<open>Properties of the step executors\<close>

text \<open>
  Claim C10. \<open>setInteraction\<close> merges the given settings over the defaults, which are all
  true: each flag of the executor, and the update flag of its status manager, becomes
  the flag given, or true when the flag is omitted, whatever it was before; with no
  argument all three become true. Nothing else of the status manager changes.
\<close>

theorem setInteraction_merges_over_defaults:
  "allowUserInteraction (setInteraction this settings)
     = (case Option.bind settings opt_allowInteraction of None \<Rightarrow> True | Some b \<Rightarrow> b)
   \<and> shouldUpdate (statusManager (setInteraction this settings))
     = (case Option.bind settings opt_allowUpdates of None \<Rightarrow> True | Some b \<Rightarrow> b)
   \<and> allowExecution (setInteraction this settings)
     = (case Option.bind settings opt_allowExecution of None \<Rightarrow> True | Some b \<Rightarrow> b)
   \<and> allowUserInteraction (setInteraction this None)
   \<and> shouldUpdate (statusManager (setInteraction this None))
   \<and> allowExecution (setInteraction this None)
   \<and> route (statusManager (setInteraction this settings)) = route (statusManager this)
   \<and> hookCalls (statusManager (setInteraction this settings)) = hookCalls (statusManager this)"
  by (cases settings)
    (simp_all add: setInteraction_def spread_def defaultInteractionSettings_def flag_def allowUpdates_def
      split: option.splits)

lemma propagateAndReturn_succeeds:
  assumes "\<not> shouldUpdate m \<or> findIndex (\<lambda>routeStep. step_id routeStep = step_id step) (route m) \<noteq> - 1"
  shows "\<exists>m1. propagateAndReturn m step v = (m1, step, Inr v)"
  using assms by (auto simp: propagateAndReturn_def updateStepInRoute_def Let_def)

lemma executeStep_reach_swap:
  "executeStep_reach answering (pausedExecutor, swapStep (stepWith PENDING []) None, [])
     = ((pausedExecutor, swapStep (stepWith PENDING [bareProcess SWAP STARTED]) (Some quotedRequest), []),
        Inr (swapLocals, swapParameters, bareProcess SWAP STARTED))"
  by (simp add: executeStep_reach_def executeStep_start_def executeStep_configure_def
      executeStep_prepare_def executeStep_request_def Object_assign_compared_def checkClient_def
      catching_def thenDo_def engine_def answer_def collaborate_def
      findOrCreateProcess_object_def findOrCreateProcess_def updateProcess_def initExecutionObject_def
      propagateAndReturn_def updateStepInRoute_def sortProcesses_def
      answering_def pausedExecutor_def swapStep_def swapLocals_def swapParameters_def quotedRequest_def
      quietManager_def stepWith_def bareProcess_def noMessage_def Let_def)


text \<open>
  Claim C3, as amended. Take an invocation of \<open>executeStep\<close> that reaches the status write
  before the submission (line 338) with user interaction not allowed, and whose write
  succeeds: the step has its execution and the current process, and the status manager
  can propagate (updates are off, or the route has the step). \<open>executeStep\<close> then writes on
  the current process the status \<open>PERMIT_REQUIRED\<close> (permits supported) or
  \<open>ACTION_REQUIRED\<close> and the message of that status, writes \<open>ACTION_REQUIRED\<close> on the
  execution in the second case, orders the processes as \<open>updateProcess\<close> does, and returns
  the step as this write leaves it: nothing else of the step changes, the executor keeps
  its client and its flags, and no request is made to the wallet or to the relayer. It is
  a pause, not an abort.
\<close>

theorem executeStep_pause:
  assumes "executeStep_reach c w0 = ((this, step, reqs), Inr (l, request, process1))"
    and "\<not> allowUserInteraction this"
    and "execution (engineStep step) = Some ex"
    and "find (\<lambda>p. ptype p = ptype process1) (process ex) = Some cp"
    and "\<not> shouldUpdate (statusManager this)
         \<or> findIndex (\<lambda>routeStep. step_id routeStep = step_id (engineStep step))
              (route (statusManager this)) \<noteq> - 1"
  shows "\<exists>m1 i q.
      q = cp\<lparr> pstatus := (if permitSupported l then PERMIT_REQUIRED else ACTION_REQUIRED),
               message := getProcessMessage c (ptype process1)
                            (if permitSupported l then PERMIT_REQUIRED else ACTION_REQUIRED) \<rparr>
      \<and> i < length (process ex) \<and> process ex ! i = cp
      \<and> executeStep c w0 =
          ((this\<lparr> statusManager := m1 \<rparr>,
            step\<lparr> engineStep := (engineStep step)\<lparr> execution := Some
               \<lparr> status = (if permitSupported l then status ex else ACTION_REQUIRED),
                 process = sortProcesses ((process ex)[i := q]) \<rparr> \<rparr> \<rparr>,
            reqs),
           Return)"
proof -
  define s where "s = (if permitSupported l then PERMIT_REQUIRED else ACTION_REQUIRED)"
  define q where "q = cp\<lparr> pstatus := s, message := getProcessMessage c (ptype process1) s \<rparr>"
  define i where "i = nat (findIndex (\<lambda>p. ptype p = ptype process1) (process ex))"
  define step1 where "step1 = (engineStep step)\<lparr> execution := Some
               \<lparr> status = (if permitSupported l then status ex else ACTION_REQUIRED),
                 process = sortProcesses ((process ex)[i := q]) \<rparr> \<rparr>"
  have sw1: "fst (statusSwitch (Date_now c 338) s (cp, status ex)) = cp"
    by (simp add: s_def)
  have sw2: "snd (statusSwitch (Date_now c 338) s (cp, status ex))
      = (if permitSupported l then status ex else ACTION_REQUIRED)"
    by (simp add: s_def)
  have up: "updateProcess (getProcessMessage c) (Date_now c 338) (statusManager this) (engineStep step)
        (ptype process1) s None = propagateAndReturn (statusManager this) step1 q"
    using updateProcess_unfold [OF assms(3,4), of "getProcessMessage c" "Date_now c 338" "statusManager this" s None]
    by (simp add: Let_def sw1 sw2 q_def i_def step1_def)
  have "step_id step1 = step_id (engineStep step)"
    by (simp add: step1_def)
  with assms(5) have "\<not> shouldUpdate (statusManager this)
         \<or> findIndex (\<lambda>routeStep. step_id routeStep = step_id step1) (route (statusManager this)) \<noteq> - 1"
    by simp
  from propagateAndReturn_succeeds [OF this, of q]
  obtain m1 where "propagateAndReturn (statusManager this) step1 q = (m1, step1, Inr q)"
    by blast
  with up have up': "updateProcess (getProcessMessage c) (Date_now c 338) (statusManager this) (engineStep step)
        (ptype process1) s None = (m1, step1, Inr q)"
    by simp
  have send: "executeStep_send c l (this, step, reqs) request process1
      = ((this\<lparr> statusManager := m1 \<rparr>, step\<lparr> engineStep := step1 \<rparr>, reqs), Return)"
    using up' assms(2)
    by (simp add: executeStep_send_def engine_def catching_def thenEnd_def s_def [symmetric])
  have run: "executeStep c w0 = executeStep_send c l (this, step, reqs) request process1"
    using assms(1) by (simp add: executeStep_def thenEnd_def)
  from findIndex_find [OF assms(4)] have i: "i < length (process ex)" "process ex ! i = cp"
    by (simp_all add: i_def)
  from run send have fin: "executeStep c w0
      = ((this\<lparr> statusManager := m1 \<rparr>, step\<lparr> engineStep := step1 \<rparr>, reqs), Return)"
    by simp
  show ?thesis
    by (rule exI [of _ m1], rule exI [of _ i], rule exI [of _ q])
      (use fin i in \<open>simp add: q_def s_def step1_def\<close>)
qed

theorem executeStep_pause_witness:
  "executeStep_reach answering (pausedExecutor, swapStep (stepWith PENDING []) None, [])
     = ((pausedExecutor, swapStep (stepWith PENDING [bareProcess SWAP STARTED]) (Some quotedRequest), []),
        Inr (swapLocals, swapParameters, bareProcess SWAP STARTED))
   \<and> \<not> allowUserInteraction pausedExecutor
   \<and> \<not> shouldUpdate (statusManager pausedExecutor)
   \<and> executeStep answering (pausedExecutor, swapStep (stepWith PENDING []) None, [])
       = ((pausedExecutor,
           swapStep (stepWith ACTION_REQUIRED [bareProcess SWAP ACTION_REQUIRED]) (Some quotedRequest), []),
          Return)"
proof -
  let ?ps = "[bareProcess SWAP STARTED]"
  let ?step = "swapStep (stepWith PENDING ?ps) (Some quotedRequest)"
  have h1: "executeStep_reach answering (pausedExecutor, swapStep (stepWith PENDING []) None, [])
     = ((pausedExecutor, ?step, []), Inr (swapLocals, swapParameters, bareProcess SWAP STARTED))"
    by (rule executeStep_reach_swap)
  have h2: "\<not> allowUserInteraction pausedExecutor"
    by (simp add: pausedExecutor_def)
  have h3: "execution (engineStep ?step) = Some \<lparr> status = PENDING, process = ?ps \<rparr>"
    by (simp add: swapStep_def stepWith_def)
  have h4: "find (\<lambda>p. ptype p = ptype (bareProcess SWAP STARTED))
      (process \<lparr> status = PENDING, process = ?ps \<rparr>) = Some (bareProcess SWAP STARTED)"
    by simp
  have h5: "\<not> shouldUpdate (statusManager pausedExecutor)"
    by (simp add: pausedExecutor_def quietManager_def)
  then have h5': "\<not> shouldUpdate (statusManager pausedExecutor)
         \<or> findIndex (\<lambda>routeStep. step_id routeStep = step_id (engineStep ?step))
              (route (statusManager pausedExecutor)) \<noteq> - 1"
    by simp
  from executeStep_pause [OF h1 h2 h3 h4 h5']
  obtain m1 i q where q: "q = (bareProcess SWAP STARTED)\<lparr> pstatus :=
        (if permitSupported swapLocals then PERMIT_REQUIRED else ACTION_REQUIRED),
        message := getProcessMessage answering (ptype (bareProcess SWAP STARTED))
                     (if permitSupported swapLocals then PERMIT_REQUIRED else ACTION_REQUIRED) \<rparr>"
    and i: "i < length (process \<lparr> status = PENDING, process = ?ps \<rparr>)"
    and r: "executeStep answering (pausedExecutor, swapStep (stepWith PENDING []) None, []) =
          ((pausedExecutor\<lparr> statusManager := m1 \<rparr>,
            ?step\<lparr> engineStep := (engineStep ?step)\<lparr> execution := Some
               \<lparr> status = (if permitSupported swapLocals
                            then status \<lparr> status = PENDING, process = ?ps \<rparr> else ACTION_REQUIRED),
                 process = sortProcesses ((process \<lparr> status = PENDING, process = ?ps \<rparr>)[i := q]) \<rparr> \<rparr> \<rparr>,
            []),
           Return)"
    by (elim exE conjE)
  have direct: "fst (fst (executeStep answering (pausedExecutor, swapStep (stepWith PENDING []) None, [])))
      = pausedExecutor"
    using h1
    by (simp add: executeStep_def executeStep_send_def thenEnd_def engine_def catching_def
        updateProcess_def propagateAndReturn_def updateStepInRoute_def sortProcesses_def
        answering_def pausedExecutor_def swapStep_def swapLocals_def quietManager_def stepWith_def
        bareProcess_def noMessage_def Let_def)
  with r have m1: "pausedExecutor\<lparr> statusManager := m1 \<rparr> = pausedExecutor"
    by simp
  from i have i0: "i = 0" by simp
  from q have q': "q = bareProcess SWAP ACTION_REQUIRED"
    by (simp add: swapLocals_def answering_def noMessage_def bareProcess_def)
  have "?step\<lparr> engineStep := (engineStep ?step)\<lparr> execution := Some
               \<lparr> status = (if permitSupported swapLocals
                            then status \<lparr> status = PENDING, process = ?ps \<rparr> else ACTION_REQUIRED),
                 process = sortProcesses ((process \<lparr> status = PENDING, process = ?ps \<rparr>)[i := q]) \<rparr> \<rparr> \<rparr>
      = swapStep (stepWith ACTION_REQUIRED [bareProcess SWAP ACTION_REQUIRED]) (Some quotedRequest)"
    by (simp add: i0 q' swapLocals_def swapStep_def stepWith_def sortProcesses_def bareProcess_def)
  with r m1 have "executeStep answering (pausedExecutor, swapStep (stepWith PENDING []) None, [])
       = ((pausedExecutor,
           swapStep (stepWith ACTION_REQUIRED [bareProcess SWAP ACTION_REQUIRED]) (Some quotedRequest), []),
          Return)"
    by simp
  with h1 h2 h5 show ?thesis by (intro conjI)
qed

text \<open>
  Claim C3 as stated fails. This invocation reaches line 338 with a step whose swap process
  is \<open>STARTED\<close> and whose execution is \<open>PENDING\<close>, and with user interaction not allowed;
  the step that \<open>executeStep\<close> returns has both \<open>ACTION_REQUIRED\<close>.
\<close>

theorem executeStep_pause_modifies_step:
  "executeStep_reach answering (pausedExecutor, swapStep (stepWith PENDING []) None, [])
     = ((pausedExecutor, swapStep (stepWith PENDING [bareProcess SWAP STARTED]) (Some quotedRequest), []),
        Inr (swapLocals, swapParameters, bareProcess SWAP STARTED))
   \<and> executeStep answering (pausedExecutor, swapStep (stepWith PENDING []) None, [])
       = ((pausedExecutor,
           swapStep (stepWith ACTION_REQUIRED [bareProcess SWAP ACTION_REQUIRED]) (Some quotedRequest), []),
          Return)
   \<and> swapStep (stepWith ACTION_REQUIRED [bareProcess SWAP ACTION_REQUIRED]) (Some quotedRequest)
       \<noteq> swapStep (stepWith PENDING [bareProcess SWAP STARTED]) (Some quotedRequest)"
proof (intro conjI)
  show r: "executeStep_reach answering (pausedExecutor, swapStep (stepWith PENDING []) None, [])
     = ((pausedExecutor, swapStep (stepWith PENDING [bareProcess SWAP STARTED]) (Some quotedRequest), []),
        Inr (swapLocals, swapParameters, bareProcess SWAP STARTED))"
    by (rule executeStep_reach_swap)
  show "executeStep answering (pausedExecutor, swapStep (stepWith PENDING []) None, [])
       = ((pausedExecutor,
           swapStep (stepWith ACTION_REQUIRED [bareProcess SWAP ACTION_REQUIRED]) (Some quotedRequest), []),
          Return)"
    using r
    by (simp add: executeStep_def executeStep_send_def thenEnd_def engine_def catching_def
        updateProcess_def propagateAndReturn_def updateStepInRoute_def sortProcesses_def
        answering_def pausedExecutor_def swapStep_def swapLocals_def quietManager_def stepWith_def
        bareProcess_def noMessage_def Let_def)
  show "swapStep (stepWith ACTION_REQUIRED [bareProcess SWAP ACTION_REQUIRED]) (Some quotedRequest)
       \<noteq> swapStep (stepWith PENDING [bareProcess SWAP STARTED]) (Some quotedRequest)"
    by (simp add: swapStep_def stepWith_def)
qed

lemma executeStep_submits_when_allowed:
  "executeStep answering (pausedExecutor\<lparr> allowUserInteraction := True \<rparr>, swapStep (stepWith PENDING []) None, [])
     = ((pausedExecutor\<lparr> allowUserInteraction := True \<rparr>,
         swapStep (stepWith ACTION_REQUIRED [bareProcess SWAP ACTION_REQUIRED]) (Some quotedRequest),
         [SendTransaction
            \<lparr> st_to = Some ''0xTo'', st_account = Some \<lparr> address = ''0xFrom'', local = False \<rparr>,
              st_data = Some ''0xData'', st_value = Some 1000, st_gas = Some 21000, st_gasPrice = None,
              st_maxFeePerGas = None, st_maxPriorityFeePerGas = None \<rparr>]),
        AwaitTransaction ''0xHash'' (bareProcess SWAP ACTION_REQUIRED))"
  by (simp add: executeStep_def executeStep_send_def executeStep_submit_def
      executeStep_reach_def executeStep_start_def executeStep_configure_def
      executeStep_prepare_def executeStep_request_def Object_assign_compared_def checkClient_def
      catching_def thenDo_def thenEnd_def engine_def answer_def collaborate_def
      findOrCreateProcess_object_def findOrCreateProcess_def updateProcess_def initExecutionObject_def
      propagateAndReturn_def updateStepInRoute_def sortProcesses_def
      answering_def pausedExecutor_def swapStep_def swapLocals_def swapParameters_def quotedRequest_def
      quietManager_def stepWith_def bareProcess_def noMessage_def Let_def)


text \<open>
  When the write of line 338 cannot be propagated, its exception goes to the \<open>catch\<close> block,
  whose own write cannot be propagated either: \<open>executeStep\<close> throws.
\<close>

lemma propagateAndReturn_throws:
  assumes "shouldUpdate m" and "findIndex (\<lambda>routeStep. step_id routeStep = step_id step) (route m) = - 1"
  shows "propagateAndReturn m step v = (m, step, Inl CouldntFindStep)"
  using assms by (simp add: propagateAndReturn_def updateStepInRoute_def Let_def)

lemma updateProcess_not_propagated:
  assumes "execution step = Some ex" and "find (\<lambda>p. ptype p = type) (process ex) = Some cp"
    and "shouldUpdate m" and "findIndex (\<lambda>routeStep. step_id routeStep = step_id step) (route m) = - 1"
  shows "\<exists>step1 ex1 cp1. updateProcess gm now m step type s params = (m, step1, Inl CouldntFindStep)
           \<and> step_id step1 = step_id step \<and> execution step1 = Some ex1
           \<and> find (\<lambda>p. ptype p = type) (process ex1) = Some cp1"
proof -
  from updateProcess_written [OF assms(1,2), of s gm now m params]
  obtain q i es where i: "i < length (process ex)" and q: "ptype q = type"
    and eq: "updateProcess gm now m step type s params =
       propagateAndReturn m
         (step\<lparr> execution := Some \<lparr> status = es, process = sortProcesses ((process ex)[i := q]) \<rparr> \<rparr>) q"
    by (elim exE conjE)
  let ?step1 = "step\<lparr> execution := Some \<lparr> status = es, process = sortProcesses ((process ex)[i := q]) \<rparr> \<rparr>"
  from assms(3,4) have "propagateAndReturn m ?step1 q = (m, ?step1, Inl CouldntFindStep)"
    by (intro propagateAndReturn_throws) simp_all
  with eq have r: "updateProcess gm now m step type s params = (m, ?step1, Inl CouldntFindStep)"
    by simp
  from i have "q \<in> set (sortProcesses ((process ex)[i := q]))"
    by (simp add: set_update_memI)
  with q have "find (\<lambda>p. ptype p = type) (sortProcesses ((process ex)[i := q])) \<noteq> None"
    by (auto simp: find_None_iff)
  then obtain cp1 where "find (\<lambda>p. ptype p = type) (sortProcesses ((process ex)[i := q])) = Some cp1"
    by auto
  with r show ?thesis by simp
qed

lemma executeStep_pause_write_not_propagated:
  assumes "executeStep_reach c w0 = ((this, step, reqs), Inr (l, request, process1))"
    and "execution (engineStep step) = Some ex"
    and "find (\<lambda>p. ptype p = ptype process1) (process ex) = Some cp"
    and "shouldUpdate (statusManager this)"
    and "findIndex (\<lambda>routeStep. step_id routeStep = step_id (engineStep step))
           (route (statusManager this)) = - 1"
  shows "\<exists>step2. executeStep c w0 = ((this, step2, reqs), Throw (EngineError CouldntFindStep))"
proof -
  from updateProcess_not_propagated [OF assms(2-5), of "getProcessMessage c" "Date_now c 338"
      "if permitSupported l then PERMIT_REQUIRED else ACTION_REQUIRED" None]
  obtain step1 ex1 cp1 where
    w: "updateProcess (getProcessMessage c) (Date_now c 338) (statusManager this) (engineStep step)
          (ptype process1) (if permitSupported l then PERMIT_REQUIRED else ACTION_REQUIRED) None
        = (statusManager this, step1, Inl CouldntFindStep)"
    and id: "step_id step1 = step_id (engineStep step)"
    and ex1: "execution step1 = Some ex1"
    and cp1: "find (\<lambda>p. ptype p = ptype process1) (process ex1) = Some cp1"
    by (elim exE conjE)
  from assms(5) id have nf: "findIndex (\<lambda>routeStep. step_id routeStep = step_id step1)
           (route (statusManager this)) = - 1"
    by simp
  obtain code' cause where p: "parseEVMErrors c (EngineError CouldntFindStep)
      (step\<lparr> engineStep := step1 \<rparr>) (Some process1) = (code', cause)"
    by (cases "parseEVMErrors c (EngineError CouldntFindStep) (step\<lparr> engineStep := step1 \<rparr>) (Some process1)")
  from updateProcess_not_propagated [OF ex1 cp1 assms(4) nf, of "getProcessMessage c" "Date_now c 494" FAILED
      "Some (noParameters\<lparr> set_error := Some (Some (ProcessError code' cause)) \<rparr>)"]
  obtain step2 where
    cw: "updateProcess (getProcessMessage c) (Date_now c 494) (statusManager this) step1
          (ptype process1) FAILED (Some (noParameters\<lparr> set_error := Some (Some (ProcessError code' cause)) \<rparr>))
        = (statusManager this, step2, Inl CouldntFindStep)"
    by (elim exE conjE)
  have "executeStep_send c l (this, step, reqs) request process1
      = ((this, step\<lparr> engineStep := step2 \<rparr>, reqs), Throw (EngineError CouldntFindStep))"
    using w p cw
    by (simp add: executeStep_send_def executeStep_catch_def engine_def catching_def thenEnd_def)
  moreover have "executeStep c w0 = executeStep_send c l (this, step, reqs) request process1"
    using assms(1) by (simp add: executeStep_def thenEnd_def)
  ultimately show ?thesis by simp
qed

end
